theory Spec2Isabelle
  imports Complex_Main
begin

section \<open>JavaScript numbers\<close>

text \<open>
  The component computes with JavaScript numbers. A number is modelled as a finite real,
  one of the two infinities, or NaN. The operators \<open>js_add\<close>, \<open>js_mul\<close>, \<open>js_div\<close> and
  so on are the exact operations; the rounding to the nearest double that every operation
  of the language performs is the separate function \<open>dbl\<close> of the next subsection, and
  \<open>dadd\<close>, \<open>dsub\<close>, \<open>dmul\<close> and \<open>ddiv\<close> are the rounded operations. Overflow to an
  infinity and the sign of zero are not modelled (a zero divisor counts as \<open>+0\<close>).
  Everything else follows the language: the special values propagate through the operators
  as ECMAScript prescribes, every comparison with NaN is false, and \<open>undefined\<close> (a missing
  property, a missing argument) is \<open>None\<close> of an option type and becomes NaN when an
  operator converts it to a number.
\<close>

datatype jsnum = Fin real | PInf | NInf | NaN

definition signed_inf :: "real \<Rightarrow> jsnum" where
  "signed_inf r = (if 0 < r then PInf else if r < 0 then NInf else NaN)"

fun js_neg :: "jsnum \<Rightarrow> jsnum" where
  "js_neg (Fin a) = Fin (- a)"
| "js_neg PInf = NInf"
| "js_neg NInf = PInf"
| "js_neg NaN = NaN"

fun js_add :: "jsnum \<Rightarrow> jsnum \<Rightarrow> jsnum" where
  "js_add (Fin a) (Fin b) = Fin (a + b)"
| "js_add NaN _ = NaN"
| "js_add _ NaN = NaN"
| "js_add PInf NInf = NaN"
| "js_add NInf PInf = NaN"
| "js_add PInf _ = PInf"
| "js_add _ PInf = PInf"
| "js_add NInf _ = NInf"
| "js_add _ NInf = NInf"

definition js_sub :: "jsnum \<Rightarrow> jsnum \<Rightarrow> jsnum" where
  "js_sub a b = js_add a (js_neg b)"

fun js_mul :: "jsnum \<Rightarrow> jsnum \<Rightarrow> jsnum" where
  "js_mul (Fin a) (Fin b) = Fin (a * b)"
| "js_mul NaN _ = NaN"
| "js_mul _ NaN = NaN"
| "js_mul (Fin a) PInf = signed_inf a"
| "js_mul (Fin a) NInf = signed_inf (- a)"
| "js_mul PInf (Fin b) = signed_inf b"
| "js_mul NInf (Fin b) = signed_inf (- b)"
| "js_mul PInf PInf = PInf"
| "js_mul PInf NInf = NInf"
| "js_mul NInf PInf = NInf"
| "js_mul NInf NInf = PInf"

fun js_div :: "jsnum \<Rightarrow> jsnum \<Rightarrow> jsnum" where
  "js_div (Fin a) (Fin b) = (if b = 0 then signed_inf a else Fin (a / b))"
| "js_div NaN _ = NaN"
| "js_div _ NaN = NaN"
| "js_div (Fin a) PInf = Fin 0"
| "js_div (Fin a) NInf = Fin 0"
| "js_div PInf (Fin b) = (if 0 \<le> b then PInf else NInf)"
| "js_div NInf (Fin b) = (if 0 \<le> b then NInf else PInf)"
| "js_div PInf PInf = NaN"
| "js_div PInf NInf = NaN"
| "js_div NInf PInf = NaN"
| "js_div NInf NInf = NaN"

text \<open>The remainder \<open>a % b\<close> takes the sign of the dividend (the quotient is truncated).\<close>

definition trunc :: "real \<Rightarrow> int" where
  "trunc q = (if 0 \<le> q then \<lfloor>q\<rfloor> else \<lceil>q\<rceil>)"

fun js_mod :: "jsnum \<Rightarrow> jsnum \<Rightarrow> jsnum" where
  "js_mod (Fin a) (Fin b) = (if b = 0 then NaN else Fin (a - b * of_int (trunc (a / b))))"
| "js_mod (Fin a) PInf = Fin a"
| "js_mod (Fin a) NInf = Fin a"
| "js_mod _ _ = NaN"

fun js_lt :: "jsnum \<Rightarrow> jsnum \<Rightarrow> bool" where
  "js_lt (Fin a) (Fin b) = (a < b)"
| "js_lt NaN _ = False"
| "js_lt _ NaN = False"
| "js_lt PInf _ = False"
| "js_lt _ NInf = False"
| "js_lt NInf _ = True"
| "js_lt _ PInf = True"

fun js_le :: "jsnum \<Rightarrow> jsnum \<Rightarrow> bool" where
  "js_le (Fin a) (Fin b) = (a \<le> b)"
| "js_le NaN _ = False"
| "js_le _ NaN = False"
| "js_le NInf _ = True"
| "js_le _ PInf = True"
| "js_le PInf _ = False"
| "js_le _ NInf = False"

definition js_gt :: "jsnum \<Rightarrow> jsnum \<Rightarrow> bool" where
  "js_gt a b = js_lt b a"

definition js_ge :: "jsnum \<Rightarrow> jsnum \<Rightarrow> bool" where
  "js_ge a b = js_le b a"

text \<open>Strict equality \<open>===\<close> on numbers: NaN is not equal to itself.\<close>

definition js_seq :: "jsnum \<Rightarrow> jsnum \<Rightarrow> bool" where
  "js_seq a b = (a = b \<and> a \<noteq> NaN)"

definition isNaN :: "jsnum \<Rightarrow> bool" where
  "isNaN a = (a = NaN)"

text \<open>\<open>!a\<close> on a number: zero and NaN are the falsy numbers.\<close>

definition js_not :: "jsnum \<Rightarrow> bool" where
  "js_not a = (a = Fin 0 \<or> a = NaN)"

fun js_abs :: "jsnum \<Rightarrow> jsnum" where
  "js_abs (Fin a) = Fin \<bar>a\<bar>"
| "js_abs PInf = PInf"
| "js_abs NInf = PInf"
| "js_abs NaN = NaN"

fun js_sqrt :: "jsnum \<Rightarrow> jsnum" where
  "js_sqrt (Fin a) = (if a < 0 then NaN else Fin (sqrt a))"
| "js_sqrt PInf = PInf"
| "js_sqrt NInf = NaN"
| "js_sqrt NaN = NaN"

text \<open>\<open>Math.pow(a, 2)\<close>.\<close>

fun js_pow2 :: "jsnum \<Rightarrow> jsnum" where
  "js_pow2 (Fin a) = Fin (a ^ 2)"
| "js_pow2 PInf = PInf"
| "js_pow2 NInf = PInf"
| "js_pow2 NaN = NaN"

text \<open>\<open>Math.round\<close> rounds to the nearest integer, a tie towards \<open>+\<infinity>\<close>.\<close>

fun js_round :: "jsnum \<Rightarrow> jsnum" where
  "js_round (Fin a) = Fin (of_int \<lfloor>a + 1 / 2\<rfloor>)"
| "js_round PInf = PInf"
| "js_round NInf = NInf"
| "js_round NaN = NaN"

text \<open>Conversion of a possibly undefined value to a number, and a default parameter.\<close>

definition num_of :: "jsnum option \<Rightarrow> jsnum" where
  "num_of v = (case v of None \<Rightarrow> NaN | Some n \<Rightarrow> n)"

definition dflt :: "jsnum \<Rightarrow> jsnum option \<Rightarrow> jsnum" where
  "dflt d v = (case v of None \<Rightarrow> d | Some n \<Rightarrow> n)"

text \<open>\<open>!v\<close> on a possibly undefined number.\<close>

definition js_not_opt :: "jsnum option \<Rightarrow> bool" where
  "js_not_opt v = (case v of None \<Rightarrow> True | Some n \<Rightarrow> js_not n)"

subsection \<open>Rounding to the nearest double\<close>

text \<open>
  A finite JavaScript number is an IEEE 754 double: an integer significand of at most 53
  bits times a power of two. An arithmetic operation returns the exact result rounded to
  the nearest double, a tie going to the even significand. For a real \<open>x \<noteq> 0\<close>,
  \<open>binade x\<close> is the exponent \<open>e\<close> with \<open>2^e \<le> |x| < 2^(e+1)\<close>, \<open>spacing x = 2^(e-52)\<close> is
  the distance of neighbouring doubles there, \<open>rne\<close> rounds a real to the nearest integer
  (a tie to the even one), and \<open>fl x\<close> is the double nearest to \<open>x\<close>. The exponent is not
  bounded: numbers beyond \<open>1.8e308\<close> or below \<open>2.2e-308\<close> in absolute value, where a
  double overflows or loses precision, are outside the model.
\<close>

definition rne :: "real \<Rightarrow> int" where
  "rne y = (let f = \<lfloor>y\<rfloor>; r = y - of_int f
            in if r < 1 / 2 then f else if 1 / 2 < r then f + 1
               else if even f then f else f + 1)"

definition binade :: "real \<Rightarrow> int" where
  "binade x = \<lfloor>log 2 \<bar>x\<bar>\<rfloor>"

definition spacing :: "real \<Rightarrow> real" where
  "spacing x = 2 powr (of_int (binade x) - 52)"

definition fl :: "real \<Rightarrow> real" where
  "fl x = (if x = 0 then 0 else of_int (rne (x / spacing x)) * spacing x)"

fun dbl :: "jsnum \<Rightarrow> jsnum" where
  "dbl (Fin a) = Fin (fl a)"
| "dbl PInf = PInf"
| "dbl NInf = NInf"
| "dbl NaN = NaN"

definition dadd :: "jsnum \<Rightarrow> jsnum \<Rightarrow> jsnum" where
  "dadd a b = dbl (js_add a b)"

definition dsub :: "jsnum \<Rightarrow> jsnum \<Rightarrow> jsnum" where
  "dsub a b = dbl (js_sub a b)"

definition dmul :: "jsnum \<Rightarrow> jsnum \<Rightarrow> jsnum" where
  "dmul a b = dbl (js_mul a b)"

definition ddiv :: "jsnum \<Rightarrow> jsnum \<Rightarrow> jsnum" where
  "ddiv a b = dbl (js_div a b)"

text \<open>
  The functions of the component below use the rounded operations in
  \<open>calculateInitialScale\<close>, \<open>scalesAreEqual\<close>, \<open>onNextImage\<close>, the first part of
  \<open>onGestureMove\<close> (\<open>drag\<close>), the zoom toggle of \<open>onGestureRelease\<close> (\<open>tap\<close>) and
  \<open>calcultateNextTranslate\<close>. In \<open>getScale\<close> and the clamp that follows it, in
  \<open>getDistance\<close>, in \<open>calculateInitalTranslate\<close> and in the target \<open>y + 400 * vy\<close> of the
  closing animation the operations are the exact ones: what is proved about these below
  (the clamp to an interval, the distance 0, the agreement of two branches, the replacement
  of NaN) holds of the rounded values as well, and the formulas are stated for the exact
  ones.
\<close>

section \<open>Constants and types of the component\<close>

text \<open>
  A decimal literal denotes the double nearest to it. \<open>SCALE_MULTIPLIER\<close> is used by
  \<open>getScale\<close> only and is the exact 1.2, like the operations there.
\<close>

definition IMAGE_SPEED_FOR_CLOSE :: jsnum where "IMAGE_SPEED_FOR_CLOSE = Fin (fl (11 / 10))"
definition SCALE_MAXIMUM :: jsnum where "SCALE_MAXIMUM = Fin 5"
definition SCALE_EPSILON :: jsnum where "SCALE_EPSILON = Fin (fl (1 / 100))"
definition SCALE_MULTIPLIER :: jsnum where "SCALE_MULTIPLIER = Fin (12 / 10)"
definition SCALE_MAX_MULTIPLIER :: jsnum where "SCALE_MAX_MULTIPLIER = Fin 3"
definition FREEZE_SCROLL_DISTANCE :: jsnum where "FREEZE_SCROLL_DISTANCE = Fin 15"
definition BACKGROUND_OPACITY_MULTIPLIER :: jsnum where
  "BACKGROUND_OPACITY_MULTIPLIER = Fin (fl (3 / 1000))"

text \<open>
  \<open>Dimensions.get('window')\<close> is read once when the module loads; the two numbers it
  gives are a parameter of every function that uses them.
\<close>

record screen =
  screenWidth :: jsnum
  screenHeight :: jsnum

record touch =
  pageX :: jsnum
  pageY :: jsnum

text \<open>
  Of an image only the two dimensions take part in the geometry; either may be undefined
  until the size has been fetched.
\<close>

record image =
  width :: "jsnum option"
  height :: "jsnum option"

record translate =
  tx :: jsnum
  ty :: jsnum

record gesture =
  dx :: jsnum
  dy :: jsnum
  vx :: jsnum
  vy :: jsnum

record params =
  scale :: jsnum
  translate :: translate

section \<open>The module-level functions\<close>

definition getScale :: "jsnum \<Rightarrow> jsnum \<Rightarrow> jsnum" where
  "getScale currentDistance initialDistance =
     js_mul (js_div currentDistance initialDistance) SCALE_MULTIPLIER"

definition pow2abs :: "jsnum \<Rightarrow> jsnum \<Rightarrow> jsnum" where
  "pow2abs a b = js_pow2 (js_abs (js_sub a b))"

text \<open>
  \<open>const [a, b] = touches\<close> leaves \<open>a\<close> or \<open>b\<close> undefined when the array is shorter.
\<close>

fun getDistance :: "touch list \<Rightarrow> jsnum" where
  "getDistance (a # b # _) =
     js_sqrt (js_add (pow2abs (pageX a) (pageX b)) (pow2abs (pageY a) (pageY b)))"
| "getDistance _ = Fin 0"

definition calculateInitialScale :: "screen \<Rightarrow> jsnum option \<Rightarrow> jsnum option \<Rightarrow> jsnum" where
  "calculateInitialScale scr imageWidth_arg imageHeight_arg =
     (let imageWidth = dflt (Fin 0) imageWidth_arg;
          imageHeight = dflt (Fin 0) imageHeight_arg;
          screenRatio = ddiv (screenHeight scr) (screenWidth scr);
          imageRatio = ddiv imageHeight imageWidth
      in if js_gt imageWidth (screenWidth scr) \<or> js_gt imageHeight (screenHeight scr)
         then (if js_gt screenRatio imageRatio
               then ddiv (screenWidth scr) imageWidth
               else ddiv (screenHeight scr) imageHeight)
         else Fin 1)"

datatype axis = AxisX | AxisY

definition calculateInitalTranslate ::
  "screen \<Rightarrow> jsnum option \<Rightarrow> jsnum option \<Rightarrow> translate" where
  "calculateInitalTranslate scr imageWidth_arg imageHeight_arg =
     (let imageWidth = dflt (Fin 0) imageWidth_arg;
          imageHeight = dflt (Fin 0) imageHeight_arg;
          getTranslate = (\<lambda>ax.
            let imageSize = (if ax = AxisX then imageWidth else imageHeight);
                screenSize = (if ax = AxisX then screenWidth scr else screenHeight scr)
            in if js_ge imageWidth imageHeight
               then js_div (js_sub screenSize imageSize) (Fin 2)
               else js_sub (js_div screenSize (Fin 2)) (js_div imageSize (Fin 2)))
      in \<lparr>tx = getTranslate AxisX, ty = getTranslate AxisY\<rparr>)"

definition getInitalParams :: "screen \<Rightarrow> image \<Rightarrow> params" where
  "getInitalParams scr img =
     \<lparr>scale = calculateInitialScale scr (width img) (height img),
      translate = calculateInitalTranslate scr (width img) (height img)\<rparr>"

definition getImagesWithoutSize :: "image list \<Rightarrow> image list" where
  "getImagesWithoutSize imgs =
     filter (\<lambda>img. js_not_opt (width img) \<or> js_not_opt (height img)) imgs"

definition scalesAreEqual :: "jsnum \<Rightarrow> jsnum \<Rightarrow> bool" where
  "scalesAreEqual scaleA scaleB = js_lt (js_abs (dsub scaleA scaleB)) SCALE_EPSILON"

section \<open>The component\<close>

text \<open>
  An \<open>Animated.Value\<close> holds its current number (\<open>_value\<close>) and, while an animation
  started by \<open>Animated.timing(v, {toValue}).start(f)\<close> runs on it, the target of that
  animation: the number changes later, when the animation has run, which \<open>finish\<close> models.
  \<open>setValue\<close> writes the number at once. Both \<open>setValue\<close> and the start of a new
  animation stop the animation that is running on the value, and an animation that is
  stopped calls its completion callback, just as one that has run to its end does.

  The component passes a completion callback in one place only: the closing animation on
  \<open>imageTranslateValue.y\<close> at the end of \<open>onGestureRelease\<close>, whose callback calls
  \<open>close\<close>. So the y component of \<open>imageTranslateValue\<close> is an \<open>animated_cb\<close>: besides
  the number and the target it has the flag \<open>anim_close\<close>, which says that an animation
  runs on it and has that callback. The other animated values never have a callback;
  \<open>setValue\<close> and \<open>timing\<close> on them change the value alone.
\<close>

record animated =
  anim_value :: jsnum
  anim_toValue :: "jsnum option"

record animated_cb = animated +
  anim_close :: bool

definition newValue :: "jsnum \<Rightarrow> animated" where
  "newValue v = \<lparr>anim_value = v, anim_toValue = None\<rparr>"

definition newValue_cb :: "jsnum \<Rightarrow> animated_cb" where
  "newValue_cb v = \<lparr>anim_value = v, anim_toValue = None, anim_close = False\<rparr>"

definition setValue :: "jsnum \<Rightarrow> animated \<Rightarrow> animated" where
  "setValue v a = \<lparr>anim_value = v, anim_toValue = None\<rparr>"

definition timing :: "jsnum \<Rightarrow> animated \<Rightarrow> animated" where
  "timing v a = a\<lparr>anim_toValue := Some v\<rparr>"

definition finish :: "animated \<Rightarrow> animated" where
  "finish a = (case anim_toValue a of
                 None \<Rightarrow> a
               | Some v \<Rightarrow> \<lparr>anim_value = v, anim_toValue = None\<rparr>)"

text \<open>
  The instance: the React state (\<open>images\<close> to \<open>panelsVisible\<close>), the instance fields, and
  of the props the \<open>onClose\<close> callback, of which the model records whether it is a
  function and how often it has been called. A pending \<open>doubleTapTimer\<close> is \<open>True\<close>.
  Of the two-dimensional animated values only the components the methods animate are
  kept. What the gesture and scroll handlers never read is left out:
  \<open>isFlatListRerendered\<close>, \<open>renderCounter\<close>, \<open>modalAnimation\<close> and the pan responder.
  \<open>setState\<close> is applied at once; no handler reads a state field after it has set it.
\<close>

record state =
  images :: "image list"
  isVisible :: bool
  imageIndex :: jsnum
  imageScale :: jsnum
  imageTranslate :: translate
  scrollEnabled :: bool
  panelsVisible :: bool
  imageInitialParams :: "params list"
  isScrolling :: bool
  footerHeight :: jsnum
  initialTouches :: "touch list"
  currentTouchesNum :: nat
  doubleTapTimer :: bool
  modalBackgroundOpacity :: animated
  headerTranslateValue_y :: animated
  footerTranslateValue_y :: animated
  imageScaleValue :: animated
  imageTranslateValue_x :: animated
  imageTranslateValue_y :: animated_cb
  onClose_isFunction :: bool
  onClose_calls :: nat

datatype error = TypeError

definition HEADER_HEIGHT :: jsnum where "HEADER_HEIGHT = Fin 60"

definition close :: "state \<Rightarrow> state" where
  "close s =
     (let s1 = s\<lparr>isVisible := False\<rparr>
      in if onClose_isFunction s1 then s1\<lparr>onClose_calls := Suc (onClose_calls s1)\<rparr> else s1)"

text \<open>
  \<open>setValue\<close> and \<open>timing\<close> on \<open>imageTranslateValue.y\<close>. The animation that runs on the
  value is stopped first (\<open>stopAnimation\<close>); when it is the closing animation, its
  callback calls \<open>close\<close> then and there. \<open>timing_y v cb\<close> starts the animation towards
  \<open>v\<close>, with the callback that calls \<open>close\<close> when \<open>cb\<close> is true and without a
  callback otherwise.
\<close>

definition stopAnimation :: "state \<Rightarrow> state" where
  "stopAnimation s = (if anim_close (imageTranslateValue_y s) then close s else s)"

definition setValue_y :: "jsnum \<Rightarrow> state \<Rightarrow> state" where
  "setValue_y v s = (stopAnimation s)\<lparr>imageTranslateValue_y := newValue_cb v\<rparr>"

definition timing_y :: "jsnum \<Rightarrow> bool \<Rightarrow> state \<Rightarrow> state" where
  "timing_y v cb s =
     (stopAnimation s)\<lparr>imageTranslateValue_y :=
        \<lparr>anim_value = anim_value (imageTranslateValue_y s), anim_toValue = Some v,
         anim_close = cb\<rparr>\<rparr>"

text \<open>
  \<open>xs[i]\<close> for a number \<open>i\<close>: the element when \<open>i\<close> is an integer index of the array,
  \<open>undefined\<close> otherwise.
\<close>

definition js_nth :: "'a list \<Rightarrow> jsnum \<Rightarrow> 'a option" where
  "js_nth xs i =
     (case i of
        Fin r \<Rightarrow> if 0 \<le> r \<and> r = of_int \<lfloor>r\<rfloor> \<and> nat \<lfloor>r\<rfloor> < length xs
                 then Some (xs ! nat \<lfloor>r\<rfloor>) else None
      | _ \<Rightarrow> None)"

text \<open>Reading a property of \<open>undefined\<close> throws a TypeError.\<close>

definition getInitialScale :: "state \<Rightarrow> jsnum option \<Rightarrow> error + jsnum" where
  "getInitialScale s index =
     (let imageIndex = (case index of Some i \<Rightarrow> i | None \<Rightarrow> imageIndex s)
      in case js_nth (imageInitialParams s) imageIndex of
           None \<Rightarrow> Inl TypeError
         | Some p \<Rightarrow> Inr (scale p))"

definition getInitialTranslate :: "state \<Rightarrow> jsnum option \<Rightarrow> error + translate" where
  "getInitialTranslate s index =
     (let imageIndex = (case index of Some i \<Rightarrow> i | None \<Rightarrow> imageIndex s)
      in case js_nth (imageInitialParams s) imageIndex of
           None \<Rightarrow> Inl TypeError
         | Some p \<Rightarrow> Inr (translate p))"

text \<open>
  The constructor, for the props \<open>images\<close>, \<open>imageIndex\<close>, \<open>isVisible\<close> and \<open>onClose\<close>.
  Fetching the size of images that have none is asynchronous and not part of it.
\<close>

definition construct :: "screen \<Rightarrow> image list \<Rightarrow> jsnum \<Rightarrow> bool \<Rightarrow> bool \<Rightarrow> error + state" where
  "construct scr props_images props_imageIndex props_isVisible props_onClose =
     (let s = \<lparr>images = props_images,
               isVisible = props_isVisible,
               imageIndex = props_imageIndex,
               imageScale = Fin 1,
               imageTranslate = \<lparr>tx = Fin 0, ty = Fin 0\<rparr>,
               scrollEnabled = True,
               panelsVisible = True,
               imageInitialParams = map (getInitalParams scr) props_images,
               isScrolling = False,
               footerHeight = Fin 0,
               initialTouches = [],
               currentTouchesNum = 0,
               doubleTapTimer = False,
               modalBackgroundOpacity = newValue (Fin 0),
               headerTranslateValue_y = newValue (Fin 0),
               footerTranslateValue_y = newValue (Fin 0),
               imageScaleValue = newValue (Fin 0),
               imageTranslateValue_x = newValue (Fin 0),
               imageTranslateValue_y = newValue_cb (Fin 0),
               onClose_isFunction = props_onClose,
               onClose_calls = 0\<rparr>
      in case getInitialScale s None of
           Inl e \<Rightarrow> Inl e
         | Inr sc \<Rightarrow>
             (case getInitialTranslate s None of
                Inl e \<Rightarrow> Inl e
              | Inr tr \<Rightarrow>
                  Inr (s\<lparr>imageScaleValue := newValue sc,
                         imageTranslateValue_x := newValue (tx tr),
                         imageTranslateValue_y := newValue_cb (ty tr)\<rparr>)))"

definition onNextImagesReceived :: "screen \<Rightarrow> state \<Rightarrow> image list \<Rightarrow> jsnum option \<Rightarrow> error + state" where
  "onNextImagesReceived scr s imgs imageIndex_arg =
     (let imageIndex = dflt (Fin 0) imageIndex_arg;
          s1 = s\<lparr>imageInitialParams := map (getInitalParams scr) imgs\<rparr>
      in case js_nth (imageInitialParams s1) imageIndex of
           None \<Rightarrow> Inl TypeError
         | Some p \<Rightarrow>
             Inr (setValue_y (ty (translate p))
                    (s1\<lparr>imageIndex := imageIndex,
                        imageScale := scale p,
                        imageTranslate := translate p,
                        imageScaleValue := setValue (scale p) (imageScaleValue s1),
                        imageTranslateValue_x :=
                          setValue (tx (translate p)) (imageTranslateValue_x s1)\<rparr>)))"

text \<open>
  \<open>componentWillReceiveProps\<close>, for the next props \<open>images\<close>, \<open>imageIndex\<close> and
  \<open>isVisible\<close> (\<open>None\<close> is \<open>undefined\<close>). The test \<open>images !== nextProps.images\<close> compares
  references; storing an array with the same content changes nothing here, so the model
  stores the next images in either case. The asynchronous fetch of missing sizes and the
  fade-in animation of the modal are left out.
\<close>

definition componentWillReceiveProps ::
  "screen \<Rightarrow> state \<Rightarrow> image list \<Rightarrow> jsnum option \<Rightarrow> bool option \<Rightarrow> error + state" where
  "componentWillReceiveProps scr s next_images next_imageIndex next_isVisible =
     (let s1 = s\<lparr>images := next_images\<rparr>
      in case next_isVisible of
           None \<Rightarrow> Inr s1
         | Some v \<Rightarrow>
             if v \<noteq> isVisible s
             then (case onNextImagesReceived scr s1 next_images next_imageIndex of
                     Inl e \<Rightarrow> Inl e
                   | Inr s2 \<Rightarrow>
                       Inr (s2\<lparr>isVisible := v,
                               modalBackgroundOpacity :=
                                 setValue (Fin 0) (modalBackgroundOpacity s2)\<rparr>))
             else Inr s1)"

text \<open>
  \<open>onNextImage\<close> receives the scroll event; \<open>contentOffset\<close> is the \<open>x\<close> of
  \<open>event.nativeEvent.contentOffset\<close>, or \<open>None\<close> when the event has no offset. The
  remainder \<open>x % screenWidth\<close> of two doubles is a double, it needs no rounding.
\<close>

definition onNextImage :: "screen \<Rightarrow> state \<Rightarrow> jsnum option \<Rightarrow> error + state" where
  "onNextImage scr s contentOffset =
     (let x = (case contentOffset of Some v \<Rightarrow> v | None \<Rightarrow> Fin 0);
          nextImageIndex = js_round (ddiv x (screenWidth scr));
          s1 = s\<lparr>isScrolling := js_gt (js_mod x (screenWidth scr)) (Fin 10)\<rparr>
      in if \<not> js_seq (imageIndex s1) nextImageIndex \<and> js_ge nextImageIndex (Fin 0)
         then (case getInitialScale s1 (Some nextImageIndex) of
                 Inl e \<Rightarrow> Inl e
               | Inr nextImageScale \<Rightarrow>
                   (case getInitialTranslate s1 (Some nextImageIndex) of
                      Inl e \<Rightarrow> Inl e
                    | Inr nextImageTranslate \<Rightarrow>
                        Inr (setValue_y (ty nextImageTranslate)
                               (s1\<lparr>imageIndex := nextImageIndex,
                                   imageScale := nextImageScale,
                                   imageTranslate := nextImageTranslate,
                                   imageScaleValue := setValue nextImageScale (imageScaleValue s1),
                                   imageTranslateValue_x :=
                                     setValue (tx nextImageTranslate) (imageTranslateValue_x s1)\<rparr>))))
         else Inr s1)"

text \<open>
  Of \<open>getImageStyle\<close>, which \<open>render\<close> calls through \<open>renderImage\<close> for the images of
  the list, the model keeps the part that can throw, the scale of the transform: an image
  without a width or a height gets the style \<open>{opacity: 0}\<close> before any scale is read
  (\<open>None\<close>), the current image gets the animated scale, and every other image the initial
  scale of its index.
\<close>

definition getImageStyle :: "state \<Rightarrow> image \<Rightarrow> jsnum \<Rightarrow> error + jsnum option" where
  "getImageStyle s img index =
     (if js_not_opt (width img) \<or> js_not_opt (height img) then Inr None
      else if js_seq index (imageIndex s) then Inr (Some (anim_value (imageScaleValue s)))
      else (case getInitialScale s (Some index) of
              Inl e \<Rightarrow> Inl e
            | Inr sc \<Rightarrow> Inr (Some sc)))"

fun renderImages :: "state \<Rightarrow> image list \<Rightarrow> nat \<Rightarrow> error + jsnum option list" where
  "renderImages s [] i = Inr []"
| "renderImages s (img # imgs) i =
     (case getImageStyle s img (Fin (of_nat i)) of
        Inl e \<Rightarrow> Inl e
      | Inr st \<Rightarrow>
          (case renderImages s imgs (Suc i) of
             Inl e \<Rightarrow> Inl e
           | Inr sts \<Rightarrow> Inr (st # sts)))"

definition render :: "state \<Rightarrow> error + jsnum option list" where
  "render s = renderImages s (images s) 0"

definition onGestureStart :: "state \<Rightarrow> touch list \<Rightarrow> state" where
  "onGestureStart s touches =
     s\<lparr>initialTouches := touches, currentTouchesNum := length touches\<rparr>"

text \<open>
  \<open>onGestureMove\<close> receives the touches of the native event and the gesture state. The
  steps are those of the source, in its order, in two parts: \<open>drag\<close> is the part from
  \<open>if (imageScale !== imageInitialScale)\<close> to \<open>this.setState({scrollEnabled})\<close>, which
  moves the image and fades the background, and \<open>pinch\<close> is the tail that starts at
  \<open>if (!initialDistance)\<close>.
\<close>

definition drag :: "screen \<Rightarrow> state \<Rightarrow> gesture \<Rightarrow> jsnum \<Rightarrow> image \<Rightarrow> state" where
  "drag scr s gestureState imageInitialScale img =
     (let x = tx (imageTranslate s);
          y = ty (imageTranslate s);
          h = num_of (height img);
          s2 = (if \<not> js_seq (imageScale s) imageInitialScale
                then s\<lparr>imageTranslateValue_x :=
                         setValue (dadd x (dx gestureState)) (imageTranslateValue_x s)\<rparr>
                else s);
          s3 = (if js_gt (dmul (imageScale s) h) (screenHeight scr)
                then setValue_y (dadd y (dy gestureState)) s2
                else s2);
          s4 = (if scalesAreEqual (imageScale s) imageInitialScale
                   \<and> js_lt (dmul h imageInitialScale) (screenHeight scr)
                then
                  let backgroundOpacity =
                        js_abs (dmul (dy gestureState) BACKGROUND_OPACITY_MULTIPLIER)
                  in (setValue_y (dadd y (dy gestureState)) s3)
                       \<lparr>modalBackgroundOpacity :=
                           setValue (if js_gt backgroundOpacity (Fin 1) then Fin 1
                                     else backgroundOpacity)
                                    (modalBackgroundOpacity s3)\<rparr>
                else s3)
      in s4\<lparr>scrollEnabled := js_lt (js_abs (dy gestureState)) FREEZE_SCROLL_DISTANCE\<rparr>)"

definition pinch :: "state \<Rightarrow> touch list \<Rightarrow> jsnum \<Rightarrow> jsnum \<Rightarrow> jsnum \<Rightarrow> state" where
  "pinch s touches currentDistance initialDistance imageInitialScale =
     (if js_not initialDistance then s
      else if length touches < 2 then s
      else
        let nextScale0 = js_mul (getScale currentDistance initialDistance) (imageScale s);
            nextScale = (if js_lt nextScale0 imageInitialScale then imageInitialScale
                         else if js_gt nextScale0 SCALE_MAXIMUM then SCALE_MAXIMUM
                         else nextScale0)
        in s\<lparr>imageScaleValue := setValue nextScale (imageScaleValue s),
             currentTouchesNum := length touches\<rparr>)"

definition onGestureMove :: "screen \<Rightarrow> state \<Rightarrow> touch list \<Rightarrow> gesture \<Rightarrow> error + state" where
  "onGestureMove scr s touches gestureState =
     (if isScrolling s then Inr s
      else
        let s1 = (if currentTouchesNum s = 1 \<and> length touches = 2
                  then s\<lparr>initialTouches := touches\<rparr> else s)
        in case getInitialScale s1 None of
             Inl e \<Rightarrow> Inl e
           | Inr imageInitialScale \<Rightarrow>
               (case js_nth (images s1) (imageIndex s1) of
                  None \<Rightarrow> Inl TypeError
                | Some img \<Rightarrow>
                    let s5 = drag scr s1 gestureState imageInitialScale img;
                        currentDistance = getDistance touches;
                        initialDistance = getDistance (initialTouches s5)
                    in Inr (pinch s5 touches currentDistance initialDistance imageInitialScale)))"

text \<open>
  \<open>calcultateNextTranslate\<close> starts with \<open>const {imageInitialScale} = this.getInitialScale()\<close>:
  it reads the property \<open>imageInitialScale\<close> of the number that \<open>getInitialScale\<close>
  returns. A number has no such property, so the constant is \<open>undefined\<close>.
\<close>

definition number_property :: "jsnum \<Rightarrow> string \<Rightarrow> jsnum option" where
  "number_property n name = None"

text \<open>
  The inner \<open>getTranslate\<close> of \<open>calcultateNextTranslate\<close>, with the variables it
  closes over as parameters: the stored translate \<open>(x, y)\<close>, the image's \<open>width\<close> and
  \<open>height\<close>, \<open>imageInitialScale\<close>, and the arguments \<open>dx\<close>, \<open>dy\<close> and \<open>scale\<close>.
\<close>

definition getTranslate ::
  "screen \<Rightarrow> translate \<Rightarrow> image \<Rightarrow> jsnum option \<Rightarrow> jsnum \<Rightarrow> jsnum \<Rightarrow> jsnum \<Rightarrow> axis \<Rightarrow> jsnum" where
  "getTranslate scr xy img imageInitialScale dx_arg dy_arg scale_arg ax =
     (let imageSize = (if ax = AxisX then num_of (width img) else num_of (height img));
          screenSize = (if ax = AxisX then screenWidth scr else screenHeight scr);
          leftLimit = ddiv (dsub (dmul scale_arg imageSize) imageSize) (Fin 2);
          rightLimit = dsub (dsub screenSize imageSize) leftLimit;
          nextTranslate = (if ax = AxisX then dadd (tx xy) dx_arg else dadd (ty xy) dy_arg)
      in if js_gt screenSize (dmul scale_arg imageSize)
         then (if js_ge (num_of (width img)) (num_of (height img))
               then ddiv (dsub screenSize imageSize) (Fin 2)
               else dsub (ddiv screenSize (Fin 2))
                      (ddiv (dmul imageSize (ddiv scale_arg (num_of imageInitialScale))) (Fin 2)))
         else
           let nextTranslate1 = (if js_gt nextTranslate leftLimit then leftLimit else nextTranslate)
           in if js_lt nextTranslate1 rightLimit then rightLimit else nextTranslate1)"

definition calcultateNextTranslate ::
  "screen \<Rightarrow> state \<Rightarrow> jsnum \<Rightarrow> jsnum \<Rightarrow> jsnum \<Rightarrow> error + translate" where
  "calcultateNextTranslate scr s dx_arg dy_arg scale_arg =
     (case js_nth (images s) (imageIndex s) of
        None \<Rightarrow> Inl TypeError
      | Some img \<Rightarrow>
          (case getInitialScale s None of
             Inl e \<Rightarrow> Inl e
           | Inr n \<Rightarrow>
               let imageInitialScale = number_property n ''imageInitialScale''
               in Inr \<lparr>tx = getTranslate scr (imageTranslate s) img imageInitialScale
                              dx_arg dy_arg scale_arg AxisX,
                        ty = getTranslate scr (imageTranslate s) img imageInitialScale
                              dx_arg dy_arg scale_arg AxisY\<rparr>))"

definition togglePanels :: "state \<Rightarrow> bool option \<Rightarrow> state" where
  "togglePanels s isVisible_arg =
     (let panelsVisible = (case isVisible_arg of Some b \<Rightarrow> b | None \<Rightarrow> \<not> panelsVisible s);
          s1 = s\<lparr>panelsVisible := panelsVisible,
                 headerTranslateValue_y :=
                   timing (if \<not> panelsVisible then js_neg HEADER_HEIGHT else Fin 0)
                     (headerTranslateValue_y s)\<rparr>
      in if js_gt (footerHeight s1) (Fin 0)
         then s1\<lparr>footerTranslateValue_y :=
                   timing (if \<not> panelsVisible then footerHeight s1 else Fin 0)
                     (footerTranslateValue_y s1)\<rparr>
         else s1)"

text \<open>
  The body of \<open>if (event && !dx && !dy && scalesAreEqual(imageScale, scale))\<close> in
  \<open>onGestureRelease\<close>: with the timer pending the tap is the second of a double tap and
  toggles the zoom, otherwise it starts the timer. It returns the new value of the local
  variable \<open>scale\<close> with the state. \<open>doubleTapTimeout\<close> is the timer's callback.
\<close>

definition tap :: "state \<Rightarrow> jsnum \<Rightarrow> jsnum \<Rightarrow> state \<times> jsnum" where
  "tap s scale_var imageInitialScale =
     (if doubleTapTimer s
      then
        let scale1 = (if scalesAreEqual imageInitialScale scale_var
                      then dmul scale_var SCALE_MAX_MULTIPLIER
                      else imageInitialScale);
            s1 = s\<lparr>doubleTapTimer := False,
                   imageScaleValue := timing scale1 (imageScaleValue s)\<rparr>
        in (togglePanels s1 (Some (js_seq scale1 imageInitialScale)), scale1)
      else (s\<lparr>doubleTapTimer := True\<rparr>, scale_var))"

definition doubleTapTimeout :: "state \<Rightarrow> state" where
  "doubleTapTimeout s = (togglePanels s None)\<lparr>doubleTapTimer := False\<rparr>"

text \<open>
  \<open>onGestureRelease\<close>; \<open>event\<close> says whether the native event it is given is truthy,
  which is all the function asks of it. \<open>finishRelease\<close> is its second half, from
  \<open>const scrollEnabled = ...\<close> to the final \<open>setState\<close>, with the local variables it reads
  as parameters: \<open>scale\<close>, \<open>imageInitialScale\<close>, the value of the second call of
  \<open>this.getInitialScale()\<close>, \<open>imageInitialTranslate\<close>, the result of
  \<open>calcultateNextTranslate\<close>, \<open>modalBackgroundOpacity\<close> and \<open>vy\<close>. The animations of
  \<open>Animated.parallel\<close> are started in the order of the array; the one on
  \<open>imageTranslateValue.y\<close> stops what runs there, and the closing animation, when it is
  started, stops that one in turn. \<open>Animated.parallel\<close> stops the animations of its array
  that still run when one of them is stopped; they have no callback of the component, and
  the model keeps their targets registered.
\<close>

definition finishRelease ::
  "state \<Rightarrow> jsnum \<Rightarrow> jsnum \<Rightarrow> jsnum \<Rightarrow> translate \<Rightarrow> translate \<Rightarrow> jsnum \<Rightarrow> jsnum \<Rightarrow> state" where
  "finishRelease s1 scale_var imageInitialScale imageInitialScale2 imageInitialTranslate next
       opacity vy_var =
     (let scrollEnabled = (js_seq scale_var imageInitialScale2
                           \<and> js_seq (tx next) (tx imageInitialTranslate)
                           \<and> js_seq (ty next) (ty imageInitialTranslate));
          x = (if isNaN (tx next) then tx imageInitialTranslate else tx next);
          y = (if isNaN (ty next) then ty imageInitialTranslate else ty next);
          s2 = timing_y y False
                 (s1\<lparr>modalBackgroundOpacity :=
                       (if js_gt opacity (Fin 0)
                        then timing (Fin 0) (modalBackgroundOpacity s1)
                        else modalBackgroundOpacity s1),
                     imageTranslateValue_x := timing x (imageTranslateValue_x s1)\<rparr>);
          s3 = (if js_seq scale_var imageInitialScale
                   \<and> js_ge (js_abs vy_var) IMAGE_SPEED_FOR_CLOSE
                then timing_y (js_add y (js_mul (Fin 400) vy_var)) True s2
                else s2)
      in s3\<lparr>imageScale := scale_var,
            imageTranslate := \<lparr>tx = x, ty = y\<rparr>,
            scrollEnabled := scrollEnabled\<rparr>)"

definition onGestureRelease :: "screen \<Rightarrow> state \<Rightarrow> bool \<Rightarrow> gesture \<Rightarrow> error + state" where
  "onGestureRelease scr s event gestureState =
     (let scale0 = anim_value (imageScaleValue s);
          opacity = anim_value (modalBackgroundOpacity s)
      in case getInitialScale s None of
           Inl e \<Rightarrow> Inl e
         | Inr imageInitialScale \<Rightarrow>
       (case getInitialTranslate s None of
           Inl e \<Rightarrow> Inl e
         | Inr imageInitialTranslate \<Rightarrow>
          let tapped =
                (if event \<and> js_not (dx gestureState) \<and> js_not (dy gestureState)
                    \<and> scalesAreEqual (imageScale s) scale0
                 then tap s scale0 imageInitialScale
                 else (s, scale0));
              s1 = fst tapped;
              scale_var = snd tapped
          in case calcultateNextTranslate scr s1 (dx gestureState) (dy gestureState) scale_var of
               Inl e \<Rightarrow> Inl e
             | Inr next \<Rightarrow>
           (case getInitialScale s1 None of
               Inl e \<Rightarrow> Inl e
             | Inr imageInitialScale2 \<Rightarrow>
                 Inr (finishRelease s1 scale_var imageInitialScale imageInitialScale2
                        imageInitialTranslate next opacity (vy gestureState)))))"

text \<open>
  The animations that were started run to their end: every animated value reaches its
  target, and the completion callback of the closing animation calls \<open>close\<close>.
\<close>

definition animationsFinished :: "state \<Rightarrow> state" where
  "animationsFinished s =
     (let s1 = s\<lparr>modalBackgroundOpacity := finish (modalBackgroundOpacity s),
                 headerTranslateValue_y := finish (headerTranslateValue_y s),
                 footerTranslateValue_y := finish (footerTranslateValue_y s),
                 imageScaleValue := finish (imageScaleValue s),
                 imageTranslateValue_x := finish (imageTranslateValue_x s),
                 imageTranslateValue_y :=
                   (case anim_toValue (imageTranslateValue_y s) of
                      None \<Rightarrow> imageTranslateValue_y s
                    | Some v \<Rightarrow> newValue_cb v)\<rparr>
      in if anim_close (imageTranslateValue_y s) then close s1 else s1)"

section \<open>Example inputs\<close>

text \<open>
  A 400 by 800 screen, six images, and the state of the component when it shows an image
  at its initial scale and translate. The initial scale of \<open>landscape\<close> is \<open>1/2\<close>, that of
  \<open>panorama\<close> is \<open>1/256\<close>, both doubles; those of \<open>wide\<close> and \<open>broad\<close> are the doubles
  nearest to \<open>400/530\<close> and \<open>400/1680\<close>. \<open>unsized\<close> is an image whose size is not known.
\<close>

definition screen0 :: screen where
  "screen0 = \<lparr>screenWidth = Fin 400, screenHeight = Fin 800\<rparr>"

definition landscape :: image where
  "landscape = \<lparr>width = Some (Fin 800), height = Some (Fin 400)\<rparr>"

definition portrait :: image where
  "portrait = \<lparr>width = Some (Fin 100), height = Some (Fin 200)\<rparr>"

definition panorama :: image where
  "panorama = \<lparr>width = Some (Fin 102400), height = Some (Fin 100)\<rparr>"

definition wide :: image where
  "wide = \<lparr>width = Some (Fin 530), height = Some (Fin 100)\<rparr>"

definition broad :: image where
  "broad = \<lparr>width = Some (Fin 1680), height = Some (Fin 400)\<rparr>"

definition unsized :: image where
  "unsized = \<lparr>width = None, height = None\<rparr>"

definition shown :: "screen \<Rightarrow> image \<Rightarrow> image list \<Rightarrow> state" where
  "shown scr img rest =
     (let p = getInitalParams scr img
      in \<lparr>images = img # rest,
          isVisible = True,
          imageIndex = Fin 0,
          imageScale = scale p,
          imageTranslate = translate p,
          scrollEnabled = True,
          panelsVisible = True,
          imageInitialParams = p # map (getInitalParams scr) rest,
          isScrolling = False,
          footerHeight = Fin 0,
          initialTouches = [],
          currentTouchesNum = 0,
          doubleTapTimer = False,
          modalBackgroundOpacity = newValue (Fin 0),
          headerTranslateValue_y = newValue (Fin 0),
          footerTranslateValue_y = newValue (Fin 0),
          imageScaleValue = newValue (scale p),
          imageTranslateValue_x = newValue (tx (translate p)),
          imageTranslateValue_y = newValue_cb (ty (translate p)),
          onClose_isFunction = True,
          onClose_calls = 0\<rparr>)"

text \<open>
  \<open>stale\<close> is the state after the parent has passed a second image, whose size is not
  known, while the overlay is visible: \<open>componentWillReceiveProps\<close> stores the new
  \<open>images\<close> in the state and, the visibility being unchanged, leaves
  \<open>imageInitialParams\<close> as they were and starts no fetch of the size (lemma
  \<open>stale_reached\<close> below).
\<close>

definition stale :: state where
  "stale = (shown screen0 landscape [])\<lparr>images := [landscape, unsized]\<rparr>"

definition finger :: "real \<Rightarrow> real \<Rightarrow> touch" where
  "finger a b = \<lparr>pageX = Fin a, pageY = Fin b\<rparr>"

text \<open>
  Gesture states: a tap (\<open>still\<close>), a release at the point where the finger went down but
  with a vertical velocity (\<open>flick\<close>), and a fast swipe down (\<open>swipe\<close>).
\<close>

definition still :: gesture where
  "still = \<lparr>dx = Fin 0, dy = Fin 0, vx = Fin 0, vy = Fin 0\<rparr>"

definition flick :: gesture where
  "flick = \<lparr>dx = Fin 0, dy = Fin 0, vx = Fin 0, vy = Fin 2\<rparr>"

definition swipe :: gesture where
  "swipe = \<lparr>dx = Fin 0, dy = Fin 100, vx = Fin 0, vy = Fin 2\<rparr>"

text \<open>
  A double tap: two taps without a move, the second before the timer of the first has
  fired, and then the zoom animation runs to its end.
\<close>

definition doubleTap :: "screen \<Rightarrow> state \<Rightarrow> error + state" where
  "doubleTap scr s =
     (case onGestureRelease scr s True still of
        Inl e \<Rightarrow> Inl e
      | Inr s1 \<Rightarrow>
          (case onGestureRelease scr s1 True still of
             Inl e \<Rightarrow> Inl e
           | Inr s2 \<Rightarrow> Inr (animationsFinished s2)))"

section \<open>Facts about the number model\<close>

lemma js_le_not_gt: "js_le a b \<Longrightarrow> \<not> js_gt a b"
  by (cases a; cases b) (simp_all add: js_gt_def)

lemma half_difference: "js_sub (js_div s (Fin 2)) (js_div i (Fin 2)) = js_div (js_sub s i) (Fin 2)"
  by (cases s; cases i) (simp_all add: js_sub_def diff_divide_distrib)

lemma js_nth_0: "js_nth (x # xs) (Fin 0) = Some x"
  by (simp add: js_nth_def)

lemma NaN_right [simp]:
  "js_div a NaN = NaN" "js_mul a NaN = NaN" "js_add a NaN = NaN" "js_sub a NaN = NaN"
  by (cases a; simp add: js_sub_def)+

lemma js_not_zero [simp]: "js_not (Fin 0)"
  by (simp add: js_not_def)

subsection \<open>Rounding to the nearest integer\<close>

lemma rne_of_int [simp]: "rne (of_int n) = n"
  by (simp add: rne_def)

lemma rne_error: "\<bar>of_int (rne y) - y\<bar> \<le> 1 / 2"
  unfolding rne_def Let_def by (auto; linarith)

lemma rne_mono: "y \<le> z \<Longrightarrow> rne y \<le> rne z"
proof -
  assume le: "y \<le> z"
  have floors: "\<lfloor>y\<rfloor> \<le> \<lfloor>z\<rfloor>" using le by (rule floor_mono)
  have up: "rne y \<le> \<lfloor>y\<rfloor> + 1" and lo: "\<lfloor>z\<rfloor> \<le> rne z"
    by (simp_all add: rne_def Let_def)
  show ?thesis
  proof (cases "\<lfloor>y\<rfloor> = \<lfloor>z\<rfloor>")
    case True
    then show ?thesis using le by (auto simp: rne_def Let_def)
  next
    case False
    then have "\<lfloor>y\<rfloor> + 1 \<le> \<lfloor>z\<rfloor>" using floors by simp
    then show ?thesis using up lo by linarith
  qed
qed

lemma rne_minus: "rne (- y) = - rne y"
proof (cases "y = of_int \<lfloor>y\<rfloor>")
  case True
  then obtain n where "y = of_int n" by blast
  then show ?thesis by (simp add: rne_def flip: of_int_minus)
next
  case False
  then have c: "\<lceil>y\<rceil> = \<lfloor>y\<rfloor> + 1"
    by (metis ceiling_altdef)
  have fm: "\<lfloor>- y\<rfloor> = - \<lfloor>y\<rfloor> - 1"
    by (simp add: floor_minus c)
  show ?thesis
    unfolding rne_def Let_def fm by (auto; linarith?)
qed

lemma rne_ge: "of_int a \<le> y \<Longrightarrow> a \<le> rne y"
  using rne_mono [of "of_int a" y] by simp

lemma rne_le: "y \<le> of_int b \<Longrightarrow> rne y \<le> b"
  using rne_mono [of y "of_int b"] by simp

subsection \<open>Rounding to the nearest double\<close>

lemma binade_bounds:
  assumes "x \<noteq> 0"
  shows "2 powr of_int (binade x) \<le> \<bar>x\<bar>" and "\<bar>x\<bar> < 2 powr of_int (binade x + 1)"
  using floor_log_eq_powr_iff [of "\<bar>x\<bar>" 2 "binade x"] assms by (simp_all add: binade_def)

lemma binade_eq:
  assumes "2 powr of_int e \<le> \<bar>x\<bar>" and "\<bar>x\<bar> < 2 powr of_int (e + 1)"
  shows "binade x = e"
proof -
  have "0 < \<bar>x\<bar>" using assms(1) powr_gt_zero [of 2 "of_int e"] by linarith
  then show ?thesis
    using floor_log_eq_powr_iff [of "\<bar>x\<bar>" 2 e] assms by (simp add: binade_def)
qed

lemma binade_minus [simp]: "binade (- x) = binade x"
  by (simp add: binade_def)

lemma binade_half: "x \<noteq> 0 \<Longrightarrow> binade (x / 2) = binade x - 1"
proof (rule binade_eq)
  assume x: "x \<noteq> 0"
  have a: "(2::real) powr (of_int (binade x) - 1) = 2 powr of_int (binade x) / 2"
    by (simp add: powr_diff)
  show "2 powr of_int (binade x - 1) \<le> \<bar>x / 2\<bar>"
    using binade_bounds(1) [OF x] by (simp add: a)
  have b: "(2::real) powr of_int (binade x + 1) = 2 powr of_int (binade x - 1 + 1) * 2"
    by (simp add: powr_add)
  show "\<bar>x / 2\<bar> < 2 powr of_int (binade x - 1 + 1)"
    using binade_bounds(2) [OF x] unfolding b by simp
qed

lemma binade_mono:
  assumes "0 < x" and "x \<le> y"
  shows "binade x \<le> binade y"
  unfolding binade_def using assms by (intro floor_mono) (simp add: log_le_cancel_iff)

lemma spacing_pos [simp]: "0 < spacing x"
  by (simp add: spacing_def)

lemma spacing_nz [simp]: "spacing x \<noteq> 0"
  by (simp add: spacing_def)

lemma spacing_nonneg [simp]: "0 \<le> spacing x" "\<bar>spacing x\<bar> = spacing x"
  by (simp_all add: spacing_def)

lemma spacing_minus [simp]: "spacing (- x) = spacing x"
  by (simp add: spacing_def)

lemma fl_0 [simp]: "fl 0 = 0"
  by (simp add: fl_def)

lemma fl_minus: "fl (- x) = - fl x"
  by (simp add: fl_def rne_minus)

text \<open>The significand of a nonzero number, before it is rounded, lies in \<open>[2^52, 2^53)\<close>.\<close>

lemma significand_bounds:
  assumes "x \<noteq> 0"
  shows "2 ^ 52 \<le> \<bar>x\<bar> / spacing x" and "\<bar>x\<bar> / spacing x < 2 ^ 53"
proof -
  have s: "spacing x * 2 ^ 52 = 2 powr of_int (binade x)"
    by (simp add: spacing_def powr_diff)
  have t: "spacing x * 2 ^ 53 = 2 powr of_int (binade x + 1)"
    by (simp add: spacing_def powr_diff powr_add)
  show "2 ^ 52 \<le> \<bar>x\<bar> / spacing x"
    using binade_bounds(1) [OF assms] s by (simp add: le_divide_eq mult.commute)
  show "\<bar>x\<bar> / spacing x < 2 ^ 53"
    using binade_bounds(2) [OF assms] t by (simp add: divide_less_eq mult.commute)
qed

lemma fl_significand:
  assumes "0 < x"
  shows "2 ^ 52 \<le> rne (x / spacing x)" and "rne (x / spacing x) \<le> 2 ^ 53"
proof -
  have x: "x \<noteq> 0" "\<bar>x\<bar> = x" using assms by simp_all
  have "of_int (2 ^ 52) \<le> x / spacing x"
    using significand_bounds(1) [OF x(1)] x(2) by simp
  then show "2 ^ 52 \<le> rne (x / spacing x)" by (rule rne_ge)
  have "x / spacing x \<le> of_int (2 ^ 53)"
    using significand_bounds(2) [OF x(1)] x(2) by simp
  then show "rne (x / spacing x) \<le> 2 ^ 53" by (rule rne_le)
qed

lemma fl_range:
  assumes "0 < x"
  shows "2 powr of_int (binade x) \<le> fl x" and "fl x \<le> 2 powr of_int (binade x + 1)"
proof -
  have s: "2 powr of_int (binade x) = 2 ^ 52 * spacing x"
    by (simp add: spacing_def powr_diff)
  have t: "2 powr of_int (binade x + 1) = 2 ^ 53 * spacing x"
    by (simp add: spacing_def powr_diff powr_add)
  have f: "fl x = of_int (rne (x / spacing x)) * spacing x"
    using assms by (simp add: fl_def)
  have a: "(2 ^ 52 :: real) \<le> of_int (rne (x / spacing x))"
    using fl_significand(1) [OF assms] by (metis of_int_le_iff of_int_numeral of_int_power)
  have b: "of_int (rne (x / spacing x)) \<le> (2 ^ 53 :: real)"
    using fl_significand(2) [OF assms] by (metis of_int_le_iff of_int_numeral of_int_power)
  show "2 powr of_int (binade x) \<le> fl x"
    unfolding s f using a by (simp add: mult_right_mono)
  show "fl x \<le> 2 powr of_int (binade x + 1)"
    unfolding t f using b by (simp add: mult_right_mono)
qed

lemma fl_pos: "0 < x \<Longrightarrow> 0 < fl x"
  using fl_range(1) [of x] powr_gt_zero [of 2 "of_int (binade x)"] by linarith

lemma fl_neg: "x < 0 \<Longrightarrow> fl x < 0"
  using fl_pos [of "- x"] by (simp add: fl_minus)

text \<open>The relative error of a rounding is at most \<open>2^-53\<close>.\<close>

lemma fl_error: "\<bar>fl x - x\<bar> \<le> \<bar>x\<bar> / 2 ^ 53"
proof (cases "x = 0")
  case True
  then show ?thesis by simp
next
  case False
  let ?q = "spacing x"
  have "fl x - x = (of_int (rne (x / ?q)) - x / ?q) * ?q"
    using False by (simp add: fl_def algebra_simps)
  then have "\<bar>fl x - x\<bar> = \<bar>of_int (rne (x / ?q)) - x / ?q\<bar> * ?q"
    by (simp add: abs_mult)
  also have "\<dots> \<le> 1 / 2 * ?q"
    using rne_error [of "x / ?q"] by (intro mult_right_mono) simp_all
  also have "\<dots> = 2 powr of_int (binade x) / 2 ^ 53"
    by (simp add: spacing_def powr_diff)
  also have "\<dots> \<le> \<bar>x\<bar> / 2 ^ 53"
    using binade_bounds(1) [OF False] by (simp add: divide_right_mono)
  finally show ?thesis .
qed

text \<open>Rounding is monotone.\<close>

lemma fl_mono_pos:
  assumes "0 < x" and "x \<le> y"
  shows "fl x \<le> fl y"
proof (cases "binade x = binade y")
  case True
  then have q: "spacing y = spacing x" by (simp add: spacing_def)
  have "rne (x / spacing x) \<le> rne (y / spacing x)"
    using assms(2) spacing_pos [of x] by (intro rne_mono divide_right_mono) simp_all
  then have "of_int (rne (x / spacing x)) * spacing x \<le> of_int (rne (y / spacing x)) * spacing x"
    by (intro mult_right_mono) simp_all
  then show ?thesis
    using assms by (simp add: fl_def q)
next
  case False
  then have "binade x + 1 \<le> binade y"
    using binade_mono [OF assms] by simp
  then have "(2::real) powr of_int (binade x + 1) \<le> 2 powr of_int (binade y)"
    by (intro powr_mono) simp_all
  then show ?thesis
    using fl_range(2) [OF assms(1)] fl_range(1) [of y] assms by linarith
qed

lemma fl_mono: "x \<le> y \<Longrightarrow> fl x \<le> fl y"
proof -
  assume le: "x \<le> y"
  consider "0 < x" | "x \<le> 0" "0 \<le> y" | "y < 0" using le by linarith
  then show ?thesis
  proof cases
    case 1
    then show ?thesis using le by (rule fl_mono_pos)
  next
    case 2
    have "fl x \<le> 0" using 2(1) fl_neg [of x] by (cases "x = 0") auto
    moreover have "0 \<le> fl y" using 2(2) fl_pos [of y] by (cases "y = 0") auto
    ultimately show ?thesis by simp
  next
    case 3
    have "fl (- y) \<le> fl (- x)" using 3 le by (intro fl_mono_pos) simp_all
    then show ?thesis by (simp add: fl_minus)
  qed
qed

text \<open>Halving is exact.\<close>

lemma fl_half: "fl (x / 2) = fl x / 2"
proof (cases "x = 0")
  case True
  then show ?thesis by simp
next
  case False
  have q: "spacing (x / 2) = spacing x / 2"
    by (simp add: spacing_def binade_half [OF False] powr_diff)
  show ?thesis
    using False by (simp add: fl_def q)
qed

text \<open>How a rounding is computed once the exponent is known.\<close>

lemma fl_eval:
  assumes "2 powr of_int e \<le> \<bar>x\<bar>" and "\<bar>x\<bar> < 2 powr of_int (e + 1)"
  shows "fl x = of_int (rne (x / 2 powr (of_int e - 52))) * 2 powr (of_int e - 52)"
proof -
  have "0 < \<bar>x\<bar>" using assms(1) powr_gt_zero [of 2 "of_int e"] by linarith
  then have "x \<noteq> 0" by simp
  then show ?thesis
    using binade_eq [OF assms] by (simp add: fl_def spacing_def)
qed

text \<open>A number that is a double is not changed.\<close>

lemma fl_exact_less:
  assumes "x = of_int m * 2 powr of_int k" and "\<bar>m\<bar> < 2 ^ 53"
  shows "fl x = x"
proof (cases "x = 0")
  case True
  then show ?thesis by simp
next
  case False
  define j where "j = k + 52 - binade x"
  have "\<bar>x\<bar> = of_int \<bar>m\<bar> * 2 powr of_int k"
    by (simp add: assms(1) abs_mult)
  also have "\<dots> < 2 ^ 53 * 2 powr of_int k"
  proof (intro mult_strict_right_mono)
    show "real_of_int \<bar>m\<bar> < 2 ^ 53"
      using assms(2) by (metis of_int_less_iff of_int_numeral of_int_power)
  qed simp
  also have "\<dots> = 2 powr of_int (k + 53)"
    by (simp add: powr_add)
  finally have "2 powr of_int (binade x) < (2::real) powr of_int (k + 53)"
    using binade_bounds(1) [OF False] by linarith
  then have "binade x < k + 53"
    by (simp del: of_int_add)
  then have j: "0 \<le> j" by (simp add: j_def)
  have "x / spacing x = of_int m * (2 powr of_int k / 2 powr (of_int (binade x) - 52))"
    by (simp add: assms(1) spacing_def)
  also have "2 powr of_int k / 2 powr (of_int (binade x) - 52) = (2::real) powr of_int j"
    by (simp add: j_def algebra_simps flip: powr_diff)
  also have "\<dots> = 2 ^ nat j"
    using j by (simp add: powr_real_of_int)
  finally have int: "x / spacing x = of_int (m * 2 ^ nat j)"
    by simp
  then have "rne (x / spacing x) = m * 2 ^ nat j"
    by (simp only: rne_of_int)
  then have "fl x = of_int (m * 2 ^ nat j) * spacing x"
    using False by (simp add: fl_def)
  also have "\<dots> = x / spacing x * spacing x"
    using int by simp
  finally show ?thesis by simp
qed

lemma fl_exact:
  assumes "x = of_int m * 2 powr of_int k" and "\<bar>m\<bar> \<le> 2 ^ 53"
  shows "fl x = x"
proof (cases "\<bar>m\<bar> < 2 ^ 53")
  case True
  then show ?thesis using assms(1) by (rule fl_exact_less [rotated])
next
  case False
  then have m: "\<bar>m\<bar> = 2 ^ 53" using assms(2) by simp
  then consider "m = 2 ^ 53" | "m = - (2 ^ 53)" by linarith
  then obtain m' :: int where m': "m = 2 * m'" "\<bar>m'\<bar> < 2 ^ 53"
  proof cases
    case 1
    then show ?thesis using that [of "2 ^ 52"] by simp
  next
    case 2
    then show ?thesis using that [of "- (2 ^ 52)"] by simp
  qed
  have "x = of_int m' * 2 powr of_int (k + 1)"
    by (simp add: assms(1) m'(1) powr_add)
  then show ?thesis using m'(2) by (rule fl_exact_less)
qed

lemma fl_idem [simp]: "fl (fl x) = fl x"
proof -
  consider "x = 0" | "0 < x" | "x < 0" by linarith
  then show ?thesis
  proof cases
    case 1
    then show ?thesis by simp
  next
    case 2
    have "fl x = of_int (rne (x / spacing x)) * 2 powr of_int (binade x - 52)"
      using 2 by (simp add: fl_def spacing_def)
    moreover have "\<bar>rne (x / spacing x)\<bar> \<le> 2 ^ 53"
      using fl_significand [OF 2] by simp
    ultimately show ?thesis by (rule fl_exact)
  next
    case 3
    then have p: "0 < - x" by simp
    have "fl (- x) = of_int (rne (- x / spacing (- x))) * 2 powr of_int (binade (- x) - 52)"
      using p by (simp add: fl_def spacing_def del: spacing_minus binade_minus)
    moreover have "\<bar>rne (- x / spacing (- x))\<bar> \<le> 2 ^ 53"
      using fl_significand [OF p] by simp
    ultimately have "fl (fl (- x)) = fl (- x)" by (rule fl_exact)
    then show ?thesis by (simp add: fl_minus)
  qed
qed

lemma fl_of_int: "\<bar>m\<bar> \<le> 2 ^ 53 \<Longrightarrow> fl (of_int m) = of_int m"
  using fl_exact [of "of_int m" m 0] by simp

lemma fl_dyadic: "\<bar>m\<bar> \<le> 2 ^ 53 \<Longrightarrow> fl (of_int m / 2 ^ n) = of_int m / 2 ^ n"
  using fl_exact [of "of_int m / 2 ^ n" m "- int n"]
  by (simp add: powr_minus powr_realpow field_simps)

lemma fl_numeral [simp]:
  "\<bar>numeral k :: int\<bar> \<le> 2 ^ 53 \<Longrightarrow> fl (numeral k) = numeral k"
  "\<bar>numeral k :: int\<bar> \<le> 2 ^ 53 \<Longrightarrow> fl (- numeral k) = - numeral k"
  using fl_of_int [of "numeral k"] fl_of_int [of "- numeral k"] by simp_all

lemma fl_1 [simp]: "fl 1 = 1"
  using fl_of_int [of 1] by simp

text \<open>The doubles that the examples meet.\<close>

lemma fl_fractions [simp]:
  "fl (1 / 2) = 1 / 2" "fl (3 / 2) = 3 / 2" "fl (1 / 256) = 1 / 256" "fl (3 / 256) = 3 / 256"
  "fl (9 / 256) = 9 / 256" "fl (1 / 1024) = 1 / 1024" "fl (1 / 128) = 1 / 128"
  "fl (3 / 128) = 3 / 128" "fl (- (1 / 128)) = - (1 / 128)" "fl (1 / 4) = 1 / 4"
  using fl_dyadic [of 1 1] fl_dyadic [of 3 1] fl_dyadic [of 1 8] fl_dyadic [of 3 8]
    fl_dyadic [of 9 8] fl_dyadic [of 1 10] fl_dyadic [of 1 7] fl_dyadic [of 3 7]
    fl_dyadic [of "- 1" 7] fl_dyadic [of 1 2]
  by simp_all

lemma fl_40_53: "fl (40 / 53) = 3398943114996601 / 4503599627370496"
  using fl_eval [of "- 1" "40 / 53"]
  by (simp add: powr_minus powr_neg_numeral rne_def Let_def)

text \<open>The argument is \<open>3398943114996601 / 4503599627370496 * 530\<close>.\<close>

lemma fl_wide_width:
  "fl (900719925474099265 / 2251799813685248) = 7036874417766401 / 17592186044416"
  using fl_eval [of 8 "900719925474099265 / 2251799813685248"]
  by (simp add: powr_minus powr_neg_numeral rne_def Let_def)

lemma dbl_ops_NaN [simp]:
  "ddiv a NaN = NaN" "dmul a NaN = NaN" "dadd a NaN = NaN" "dsub a NaN = NaN"
  "ddiv NaN a = NaN" "dmul NaN a = NaN" "dadd NaN a = NaN" "dsub NaN a = NaN"
  by (simp_all add: ddiv_def dmul_def dadd_def dsub_def js_sub_def)

lemma dbl_ops_Fin [simp]:
  "dadd (Fin a) (Fin b) = Fin (fl (a + b))"
  "dsub (Fin a) (Fin b) = Fin (fl (a - b))"
  "dmul (Fin a) (Fin b) = Fin (fl (a * b))"
  "b \<noteq> 0 \<Longrightarrow> ddiv (Fin a) (Fin b) = Fin (fl (a / b))"
  by (simp_all add: ddiv_def dmul_def dadd_def dsub_def js_sub_def)

text \<open>
  The two decimal constants that are compared with a computed number: each lies within
  the relative error \<open>2^-53\<close> of the decimal.
\<close>

lemma SCALE_EPSILON_bounds:
  "\<exists>eps. SCALE_EPSILON = Fin eps \<and> 1 / 128 < eps \<and> eps < 101 / 10000"
proof -
  have "\<bar>fl (1 / 100) - 1 / 100\<bar> \<le> \<bar>1 / 100\<bar> / 2 ^ 53" by (rule fl_error)
  moreover have "\<bar>1 / 100\<bar> / 2 ^ 53 \<le> (1 / 1000000 :: real)" by simp
  ultimately have "1 / 128 < fl (1 / 100) \<and> fl (1 / 100) < 101 / 10000" by linarith
  then show ?thesis by (simp add: SCALE_EPSILON_def)
qed

lemma IMAGE_SPEED_FOR_CLOSE_bounds:
  "\<exists>v. IMAGE_SPEED_FOR_CLOSE = Fin v \<and> 1 < v \<and> v < 2"
proof -
  have "\<bar>fl (11 / 10) - 11 / 10\<bar> \<le> \<bar>11 / 10\<bar> / 2 ^ 53" by (rule fl_error)
  moreover have "\<bar>11 / 10\<bar> / 2 ^ 53 \<le> (1 / 1000000 :: real)" by simp
  ultimately have "1 < fl (11 / 10) \<and> fl (11 / 10) < 2" by linarith
  then show ?thesis by (simp add: IMAGE_SPEED_FOR_CLOSE_def)
qed

lemma speed_examples [simp]:
  "js_ge (Fin 2) IMAGE_SPEED_FOR_CLOSE" "\<not> js_ge (Fin 0) IMAGE_SPEED_FOR_CLOSE"
  using IMAGE_SPEED_FOR_CLOSE_bounds by (auto simp: js_ge_def IMAGE_SPEED_FOR_CLOSE_def)

lemma fl_10_53: "fl (10 / 53) \<le> 1"
  using fl_mono [of "10 / 53" 1] by simp

lemma params_landscape:
  "getInitalParams screen0 landscape =
     \<lparr>scale = Fin (1 / 2), translate = \<lparr>tx = Fin (- 200), ty = Fin 200\<rparr>\<rparr>"
  by (simp add: getInitalParams_def calculateInitialScale_def calculateInitalTranslate_def
        screen0_def landscape_def Let_def dflt_def js_gt_def js_ge_def js_sub_def)

lemma params_portrait:
  "getInitalParams screen0 portrait =
     \<lparr>scale = Fin 1, translate = \<lparr>tx = Fin 150, ty = Fin 300\<rparr>\<rparr>"
  by (simp add: getInitalParams_def calculateInitialScale_def calculateInitalTranslate_def
        screen0_def portrait_def Let_def dflt_def js_gt_def js_ge_def js_sub_def)

lemma params_panorama:
  "getInitalParams screen0 panorama =
     \<lparr>scale = Fin (1 / 256), translate = \<lparr>tx = Fin (- 51000), ty = Fin 350\<rparr>\<rparr>"
  by (simp add: getInitalParams_def calculateInitialScale_def calculateInitalTranslate_def
        screen0_def panorama_def Let_def dflt_def js_gt_def js_ge_def js_sub_def)

lemma params_wide:
  "getInitalParams screen0 wide =
     \<lparr>scale = Fin (3398943114996601 / 4503599627370496),
      translate = \<lparr>tx = Fin (- 65), ty = Fin 350\<rparr>\<rparr>"
  using fl_10_53
  by (simp add: getInitalParams_def calculateInitialScale_def calculateInitalTranslate_def
        screen0_def wide_def Let_def dflt_def js_gt_def js_ge_def js_sub_def fl_40_53)

lemma fl_5_21: "fl (5 / 21) = 4289142502257615 / 18014398509481984"
  using fl_eval [of "- 3" "5 / 21"]
  by (simp add: powr_minus powr_neg_numeral rne_def Let_def)

lemma params_broad:
  "getInitalParams screen0 broad =
     \<lparr>scale = Fin (4289142502257615 / 18014398509481984),
      translate = \<lparr>tx = Fin (- 640), ty = Fin 200\<rparr>\<rparr>"
  by (simp add: getInitalParams_def calculateInitialScale_def calculateInitalTranslate_def
        screen0_def broad_def Let_def dflt_def js_gt_def js_ge_def js_sub_def fl_5_21)

section \<open>Initial translate\<close>

text \<open>
  C8. For every image width and height (undefined, finite, infinite or NaN) and every
  screen, the two branches of \<open>calculateInitalTranslate\<close> give the same value: the
  result is \<open>((screenWidth - imageWidth) / 2, (screenHeight - imageHeight) / 2)\<close>, the
  translate that centres the image on both axes, whatever the test
  \<open>imageWidth >= imageHeight\<close> says.
\<close>

theorem calculateInitalTranslate_centres:
  "calculateInitalTranslate scr w h =
     \<lparr>tx = js_div (js_sub (screenWidth scr) (dflt (Fin 0) w)) (Fin 2),
      ty = js_div (js_sub (screenHeight scr) (dflt (Fin 0) h)) (Fin 2)\<rparr>"
proof -
  let ?w = "dflt (Fin 0) w" and ?h = "dflt (Fin 0) h"
  have branches: "(if js_ge ?w ?h
                   then js_div (js_sub screenSize imageSize) (Fin 2)
                   else js_sub (js_div screenSize (Fin 2)) (js_div imageSize (Fin 2))) =
                  js_div (js_sub screenSize imageSize) (Fin 2)" for screenSize imageSize
    by (simp add: half_difference)
  show ?thesis
    unfolding calculateInitalTranslate_def Let_def branches by simp
qed

section \<open>Initial scale\<close>

text \<open>
  The product of a rounded quotient with its divisor is the dividend up to the relative
  error of one rounding.
\<close>

lemma fl_ratio_times:
  assumes "0 < n" and "0 < d"
  shows "n * (1 - 1 / 2 ^ 53) \<le> fl (n / d) * d" and "fl (n / d) * d \<le> n * (1 + 1 / 2 ^ 53)"
proof -
  define X where "X = fl (n / d) * d"
  have "X - n = (fl (n / d) - n / d) * d"
    using assms(2) by (simp add: X_def field_simps)
  then have "\<bar>X - n\<bar> = \<bar>fl (n / d) - n / d\<bar> * d"
    using assms(2) by (simp add: abs_mult)
  also have "\<dots> \<le> \<bar>n / d\<bar> / 2 ^ 53 * d"
    using assms(2) fl_error [of "n / d"] by (intro mult_right_mono) simp_all
  also have "\<dots> = n / 2 ^ 53"
    using assms by simp
  finally have "\<bar>X - n\<bar> \<le> n / 2 ^ 53" .
  then have e: "X - n \<le> n / 2 ^ 53" "n - X \<le> n / 2 ^ 53"
    unfolding abs_le_iff by simp_all
  show "n * (1 - 1 / 2 ^ 53) \<le> fl (n / d) * d"
    unfolding X_def [symmetric] using e(2) by (simp add: algebra_simps)
  show "fl (n / d) * d \<le> n * (1 + 1 / 2 ^ 53)"
    unfolding X_def [symmetric] using e(1) by (simp add: algebra_simps)
qed

text \<open>
  When the rounded ratio of \<open>p\<close> is not above the rounded ratio of \<open>q\<close>, \<open>p\<close> exceeds \<open>q\<close> by
  a relative \<open>2^-51\<close> at most.
\<close>

lemma fl_le_imp:
  assumes "0 < p" and "0 < q" and "fl p \<le> fl q"
  shows "p * (1 + 1 / 2 ^ 53) \<le> q * (1 + 1 / 2 ^ 51)"
proof -
  have "\<bar>fl p - p\<bar> \<le> \<bar>p\<bar> / 2 ^ 53" and "\<bar>fl q - q\<bar> \<le> \<bar>q\<bar> / 2 ^ 53"
    by (rule fl_error)+
  then have "p - fl p \<le> \<bar>p\<bar> / 2 ^ 53" and "fl q - q \<le> \<bar>q\<bar> / 2 ^ 53"
    unfolding abs_le_iff by simp_all
  then have "p - fl p \<le> p / 2 ^ 53" and "fl q - q \<le> q / 2 ^ 53"
    using assms(1,2) by simp_all
  then have "p - p / 2 ^ 53 \<le> q + q / 2 ^ 53"
    using assms(3) by linarith
  then show ?thesis
    using assms(1,2) by simp
qed

lemma cross_axis:
  fixes r :: real
  assumes "0 < a" and "0 < b" and "0 < c" and "0 < d"
    and "r * c \<le> a * (1 + 1 / 2 ^ 53)"
    and "fl (d / c) \<le> fl (b / a)"
  shows "r * d \<le> b * (1 + 1 / 2 ^ 51)"
proof -
  let ?Q = "d / c" and ?P = "b / a"
  have pos: "0 < ?Q" "0 < ?P" using assms(1-4) by simp_all
  have cross: "?Q * (1 + 1 / 2 ^ 53) \<le> ?P * (1 + 1 / 2 ^ 51)"
    using fl_le_imp [OF pos assms(6)] .
  have "r * d = (r * c) * ?Q"
    using assms(3) by simp
  also have "\<dots> \<le> (a * (1 + 1 / 2 ^ 53)) * ?Q"
    using assms(5) pos(1) by (intro mult_right_mono) simp_all
  also have "\<dots> = a * (?Q * (1 + 1 / 2 ^ 53))"
    by simp
  also have "\<dots> \<le> a * (?P * (1 + 1 / 2 ^ 51))"
    using cross assms(1) by (intro mult_left_mono) simp_all
  also have "\<dots> = b * (1 + 1 / 2 ^ 51)"
    using assms(1) by simp
  finally show ?thesis .
qed

text \<open>
  The scale of an image that is larger than the screen: one of the two rounded ratios, with
  which the scaled image exceeds the screen on neither axis by more than the relative
  error \<open>2^-51\<close> and fills it on one axis up to the relative error \<open>2^-53\<close>.
\<close>

lemma scale_of_large_image:
  assumes "0 < sw" and "0 < sh" and "0 \<le> w" and "0 \<le> h"
    and "dflt (Fin 0) imageWidth = Fin w" and "dflt (Fin 0) imageHeight = Fin h"
    and big: "sw < w \<or> sh < h"
  shows "\<exists>r. calculateInitialScale \<lparr>screenWidth = Fin sw, screenHeight = Fin sh\<rparr>
               imageWidth imageHeight = Fin r
            \<and> (Fin r = ddiv (Fin sw) (Fin w) \<or> Fin r = ddiv (Fin sh) (Fin h))
            \<and> r * w \<le> sw * (1 + 1 / 2 ^ 51) \<and> r * h \<le> sh * (1 + 1 / 2 ^ 51)
            \<and> (sw * (1 - 1 / 2 ^ 53) \<le> r * w \<or> sh * (1 - 1 / 2 ^ 53) \<le> r * h)"
proof -
  let ?scr = "\<lparr>screenWidth = Fin sw, screenHeight = Fin sh\<rparr>"
  have weaker: "x \<le> n * (1 + 1 / 2 ^ 53) \<Longrightarrow> 0 < n \<Longrightarrow> x \<le> n * (1 + 1 / 2 ^ 51)" for x n :: real
    by simp
  have ratio: "0 < fl (sh / sw)"
    using assms(1,2) by (intro fl_pos) simp
  consider (flat) "w = 0" | (thin) "h = 0" and "0 < w" | (both) "0 < w" and "0 < h"
    using assms(3,4) by fastforce
  then show ?thesis
  proof cases
    case flat
    then have h: "0 < h" "sh < h" using big assms(1,2) by simp_all
    have r: "calculateInitialScale ?scr imageWidth imageHeight = Fin (fl (sh / h))"
      using assms(1,2,5,6) flat h
      by (simp add: calculateInitialScale_def Let_def js_gt_def ddiv_def signed_inf_def)
    show ?thesis
      unfolding r using fl_ratio_times [OF assms(2) h(1)] assms(1,2) flat h(1)
      by (simp add: weaker)
  next
    case thin
    then have w: "sw < w" using big assms(2) by simp
    have r: "calculateInitialScale ?scr imageWidth imageHeight = Fin (fl (sw / w))"
      using assms(1,2,5,6) thin w ratio
      by (simp add: calculateInitialScale_def Let_def js_gt_def)
    show ?thesis
      unfolding r using fl_ratio_times [OF assms(1) thin(2)] assms(1,2) thin
      by (simp add: weaker)
  next
    case both
    show ?thesis
    proof (cases "fl (h / w) < fl (sh / sw)")
      case True
      have r: "calculateInitialScale ?scr imageWidth imageHeight = Fin (fl (sw / w))"
        using assms(1,2,5,6) both big True
        by (simp add: calculateInitialScale_def Let_def js_gt_def)
      have own: "sw * (1 - 1 / 2 ^ 53) \<le> fl (sw / w) * w"
          "fl (sw / w) * w \<le> sw * (1 + 1 / 2 ^ 53)"
        by (rule fl_ratio_times [OF assms(1) both(1)])+
      have other: "fl (sw / w) * h \<le> sh * (1 + 1 / 2 ^ 51)"
        using True by (intro cross_axis [OF assms(1,2) both own(2)]) simp
      show ?thesis
        unfolding r using own other weaker [OF own(2) assms(1)] both by simp
    next
      case False
      have r: "calculateInitialScale ?scr imageWidth imageHeight = Fin (fl (sh / h))"
        using assms(1,2,5,6) both big False
        by (simp add: calculateInitialScale_def Let_def js_gt_def)
      have own: "sh * (1 - 1 / 2 ^ 53) \<le> fl (sh / h) * h"
          "fl (sh / h) * h \<le> sh * (1 + 1 / 2 ^ 53)"
        by (rule fl_ratio_times [OF assms(2) both(2)])+
      have le: "fl (sh / sw) \<le> fl (h / w)" using False by simp
      have other: "fl (sh / h) * w \<le> sw * (1 + 1 / 2 ^ 51)"
      proof -
        let ?Q = "h / w" and ?P = "sh / sw"
        have pos: "0 < ?P" "0 < ?Q" using assms(1,2) both by simp_all
        have cross: "?P * (1 + 1 / 2 ^ 53) \<le> ?Q * (1 + 1 / 2 ^ 51)"
          using fl_le_imp [OF pos le] .
        have "fl (sh / h) * w * ?Q = fl (sh / h) * h"
          using both by simp
        also have "\<dots> \<le> sh * (1 + 1 / 2 ^ 53)" by (rule own(2))
        also have "\<dots> = sw * (?P * (1 + 1 / 2 ^ 53))"
          using assms(1) by simp
        also have "\<dots> \<le> sw * (?Q * (1 + 1 / 2 ^ 51))"
          using cross assms(1) by (intro mult_left_mono) simp_all
        also have "\<dots> = sw * (1 + 1 / 2 ^ 51) * ?Q" by simp
        finally have "fl (sh / h) * w * ?Q \<le> sw * (1 + 1 / 2 ^ 51) * ?Q" .
        then show ?thesis
          using pos(2) by (simp only: mult_le_cancel_right_pos)
      qed
      show ?thesis
        unfolding r using own other weaker [OF own(2) assms(2)] both by simp
    qed
  qed
qed

text \<open>
  C1. On a screen of positive size, for an image of non-negative finite size (an undefined
  dimension counts as 0, the parameter's default): when the width exceeds the screen
  width or the height exceeds the screen height, \<open>calculateInitialScale\<close> returns one of
  the two ratios \<open>screenWidth / imageWidth\<close> and \<open>screenHeight / imageHeight\<close>, rounded to
  a double. With that scale the image exceeds the screen on neither axis by more than the
  relative error \<open>2^-51\<close>, and on one axis it fills the screen up to the relative error
  \<open>2^-53\<close>: the result is the smaller of the two ratios up to the rounding. For any image
  that is no larger than the screen on both axes the result is 1.
\<close>

theorem calculateInitialScale_fits:
  assumes "0 < sw" and "0 < sh" and "0 \<le> w" and "0 \<le> h"
    and "dflt (Fin 0) imageWidth = Fin w" and "dflt (Fin 0) imageHeight = Fin h"
  shows "(sw < w \<or> sh < h \<longrightarrow>
           (\<exists>r. calculateInitialScale \<lparr>screenWidth = Fin sw, screenHeight = Fin sh\<rparr>
                   imageWidth imageHeight = Fin r
               \<and> (Fin r = ddiv (Fin sw) (Fin w) \<or> Fin r = ddiv (Fin sh) (Fin h))
               \<and> r * w \<le> sw * (1 + 1 / 2 ^ 51) \<and> r * h \<le> sh * (1 + 1 / 2 ^ 51)
               \<and> (sw * (1 - 1 / 2 ^ 53) \<le> r * w \<or> sh * (1 - 1 / 2 ^ 53) \<le> r * h)))
       \<and> (\<forall>scr iw ih. js_le (dflt (Fin 0) iw) (screenWidth scr)
                        \<and> js_le (dflt (Fin 0) ih) (screenHeight scr)
               \<longrightarrow> calculateInitialScale scr iw ih = Fin 1)"
proof (rule conjI)
  show "sw < w \<or> sh < h \<longrightarrow>
           (\<exists>r. calculateInitialScale \<lparr>screenWidth = Fin sw, screenHeight = Fin sh\<rparr>
                   imageWidth imageHeight = Fin r
               \<and> (Fin r = ddiv (Fin sw) (Fin w) \<or> Fin r = ddiv (Fin sh) (Fin h))
               \<and> r * w \<le> sw * (1 + 1 / 2 ^ 51) \<and> r * h \<le> sh * (1 + 1 / 2 ^ 51)
               \<and> (sw * (1 - 1 / 2 ^ 53) \<le> r * w \<or> sh * (1 - 1 / 2 ^ 53) \<le> r * h))"
    using scale_of_large_image [OF assms] by blast
next
  show "\<forall>scr iw ih. js_le (dflt (Fin 0) iw) (screenWidth scr)
                        \<and> js_le (dflt (Fin 0) ih) (screenHeight scr)
               \<longrightarrow> calculateInitialScale scr iw ih = Fin 1"
    by (simp add: calculateInitialScale_def Let_def js_le_not_gt)
qed

theorem calculateInitialScale_fits_witness:
  "(\<exists>r. calculateInitialScale \<lparr>screenWidth = Fin 400, screenHeight = Fin 800\<rparr>
          (Some (Fin 530)) (Some (Fin 100)) = Fin r
      \<and> r * 530 \<le> 400 * (1 + 1 / 2 ^ 51) \<and> r * 100 \<le> 800 * (1 + 1 / 2 ^ 51)
      \<and> 400 * (1 - 1 / 2 ^ 53) \<le> r * 530)
   \<and> calculateInitialScale \<lparr>screenWidth = Fin 400, screenHeight = Fin 800\<rparr>
        (Some (Fin 100)) None = Fin 1"
proof -
  have w: "\<exists>r. calculateInitialScale \<lparr>screenWidth = Fin 400, screenHeight = Fin 800\<rparr>
          (Some (Fin 530)) (Some (Fin 100)) = Fin r
      \<and> r * 530 \<le> 400 * (1 + 1 / 2 ^ 51) \<and> r * 100 \<le> 800 * (1 + 1 / 2 ^ 51)
      \<and> (400 * (1 - 1 / 2 ^ 53) \<le> r * 530 \<or> 800 * (1 - 1 / 2 ^ 53) \<le> r * 100)"
    using calculateInitialScale_fits [of 400 800 530 100 "Some (Fin 530)" "Some (Fin 100)"]
    by (simp add: dflt_def) blast
  have one: "calculateInitialScale \<lparr>screenWidth = Fin 400, screenHeight = Fin 800\<rparr>
        (Some (Fin 100)) None = Fin 1"
    using calculateInitialScale_fits [of 400 800 530 100 "Some (Fin 530)" "Some (Fin 100)"]
    by (simp add: dflt_def)
  from w obtain r where r:
    "calculateInitialScale \<lparr>screenWidth = Fin 400, screenHeight = Fin 800\<rparr>
          (Some (Fin 530)) (Some (Fin 100)) = Fin r"
    "r * 530 \<le> 400 * (1 + 1 / 2 ^ 51)" "r * 100 \<le> 800 * (1 + 1 / 2 ^ 51)"
    "400 * (1 - 1 / 2 ^ 53) \<le> r * 530 \<or> 800 * (1 - 1 / 2 ^ 53) \<le> r * 100"
    by blast
  have "400 * (1 - 1 / 2 ^ 53) \<le> r * 530"
    using r(2,4) by simp
  with r(1,2,3) one show ?thesis by blast
qed

text \<open>
  C1, as stated, fails where the ratio is rounded up. The image \<open>wide\<close> (530 by 100) has
  the initial scale 0.7547169811320755 on the 400 by 800 screen, the double nearest to
  \<open>400/530\<close>, which lies above \<open>400/530\<close>. The scaled width \<open>scale * imageWidth\<close> is greater
  than the screen width 400, as an exact product and as the product the program computes,
  400.00000000000006.
\<close>

theorem calculateInitialScale_exceeds_screen:
  "calculateInitialScale screen0 (width wide) (height wide) =
     Fin (3398943114996601 / 4503599627370496)
   \<and> js_gt (num_of (width wide)) (screenWidth screen0)
   \<and> \<not> js_le (js_mul (Fin (3398943114996601 / 4503599627370496)) (num_of (width wide)))
            (screenWidth screen0)
   \<and> dmul (Fin (3398943114996601 / 4503599627370496)) (num_of (width wide)) =
       Fin (7036874417766401 / 17592186044416)
   \<and> \<not> js_le (dmul (Fin (3398943114996601 / 4503599627370496)) (num_of (width wide)))
            (screenWidth screen0)"
proof -
  have "scale (getInitalParams screen0 wide) = Fin (3398943114996601 / 4503599627370496)"
    by (simp add: params_wide)
  then have "calculateInitialScale screen0 (width wide) (height wide) =
     Fin (3398943114996601 / 4503599627370496)"
    by (simp add: getInitalParams_def)
  then show ?thesis
    by (simp add: wide_def screen0_def num_of_def js_gt_def fl_wide_width)
qed

section \<open>The precomputed parameters\<close>

text \<open>
  On a screen of positive size the initial scale of an image with non-negative finite (or
  undefined) dimensions is a finite number and at most \<open>1 + 2^-51\<close>, and its initial
  translate is finite. The state \<open>shown\<close> is the one the component is in after it has
  been constructed hidden and then been made visible.
\<close>

lemma calculateInitialScale_bounded:
  assumes "0 < sw" and "0 < sh" and "0 \<le> w" and "0 \<le> h"
    and "dflt (Fin 0) imageWidth = Fin w" and "dflt (Fin 0) imageHeight = Fin h"
  shows "\<exists>r. calculateInitialScale \<lparr>screenWidth = Fin sw, screenHeight = Fin sh\<rparr>
               imageWidth imageHeight = Fin r \<and> r \<le> 1 + 1 / 2 ^ 51"
proof (cases "sw < w \<or> sh < h")
  case False
  then show ?thesis
    using assms by (simp add: calculateInitialScale_def Let_def js_gt_def)
next
  case True
  then obtain r where r:
    "calculateInitialScale \<lparr>screenWidth = Fin sw, screenHeight = Fin sh\<rparr>
       imageWidth imageHeight = Fin r"
    "r * w \<le> sw * (1 + 1 / 2 ^ 51)" "r * h \<le> sh * (1 + 1 / 2 ^ 51)"
    using scale_of_large_image [OF assms] by blast
  have bound: "r \<le> 1 + 1 / 2 ^ 51" if "r * m \<le> s * (1 + 1 / 2 ^ 51)" and "s < m" and "0 < s"
    for m s :: real
  proof -
    have "s * (1 + 1 / 2 ^ 51) \<le> m * (1 + 1 / 2 ^ 51)"
      using that(2) by (intro mult_right_mono) simp_all
    then have "r * m \<le> (1 + 1 / 2 ^ 51) * m"
      using that(1) by (simp add: mult.commute)
    then show ?thesis
      using that(2,3) by (simp only: mult_le_cancel_right)
  qed
  show ?thesis
    using True r bound [of w sw] bound [of h sh] assms(1,2) by blast
qed

lemma calculateInitalTranslate_finite:
  assumes "dflt (Fin 0) imageWidth = Fin w" and "dflt (Fin 0) imageHeight = Fin h"
  shows "calculateInitalTranslate \<lparr>screenWidth = Fin sw, screenHeight = Fin sh\<rparr>
           imageWidth imageHeight = \<lparr>tx = Fin ((sw - w) / 2), ty = Fin ((sh - h) / 2)\<rparr>"
  using assms
  by (simp add: calculateInitalTranslate_def Let_def js_sub_def diff_divide_distrib)

lemma stopAnimation_eq:
  "stopAnimation s =
     s\<lparr>isVisible := isVisible s \<and> \<not> anim_close (imageTranslateValue_y s),
       onClose_calls := (if anim_close (imageTranslateValue_y s) \<and> onClose_isFunction s
                         then Suc (onClose_calls s) else onClose_calls s)\<rparr>"
  by (simp add: stopAnimation_def close_def Let_def)

lemma shown_reached:
  "\<exists>c. construct scr (img # rest) (Fin 0) False True = Inr c
      \<and> componentWillReceiveProps scr c (img # rest) (Some (Fin 0)) (Some True) =
          Inr (shown scr img rest)"
  by (simp add: construct_def componentWillReceiveProps_def onNextImagesReceived_def shown_def
        Let_def getInitialScale_def getInitialTranslate_def js_nth_0 dflt_def newValue_def
        setValue_def setValue_y_def stopAnimation_eq newValue_cb_def)

lemma stale_reached:
  "componentWillReceiveProps screen0 (shown screen0 landscape []) [landscape, unsized]
     (Some (Fin 0)) (Some True) = Inr stale"
  by (simp add: componentWillReceiveProps_def stale_def shown_def Let_def)

section \<open>Pinch to zoom\<close>



lemma pinch_returns_early:
  "js_not initialDistance \<or> length touches < 2 \<Longrightarrow>
   pinch s touches currentDistance initialDistance imageInitialScale = s"
  by (auto simp: pinch_def)

lemma getInitialScale_initialTouches [simp]:
  "getInitialScale (s\<lparr>initialTouches := t\<rparr>) index = getInitialScale s index"
  by (cases index) (simp_all add: getInitialScale_def)

lemma drag_keeps [simp]:
  "imageScale (drag scr s g init img) = imageScale s"
  "imageScaleValue (drag scr s g init img) = imageScaleValue s"
  "currentTouchesNum (drag scr s g init img) = currentTouchesNum s"
  "initialTouches (drag scr s g init img) = initialTouches s"
  by (simp_all add: drag_def Let_def setValue_y_def stopAnimation_eq)

lemma onGestureMove_pinch:
  assumes "\<not> isScrolling s" and "getInitialScale s None = Inr init"
    and "js_nth (images s) (imageIndex s) = Some img"
  shows "onGestureMove scr s touches g =
           Inr (pinch (drag scr (if currentTouchesNum s = 1 \<and> length touches = 2
                                 then s\<lparr>initialTouches := touches\<rparr> else s) g init img)
                  touches (getDistance touches)
                  (getDistance (if currentTouchesNum s = 1 \<and> length touches = 2
                                then touches else initialTouches s))
                  init)"
  using assms
  by (simp add: onGestureMove_def Let_def del: getDistance.simps)




section \<open>The translate after a release\<close>

text \<open>
  The two limits of \<open>getTranslate\<close> as the program computes them are in order.
\<close>

lemma limits_ordered:
  assumes "ss \<le> fl (sc * m)"
  shows "fl (fl (ss - m) - fl (fl (fl (sc * m) - m) / 2)) \<le> fl (fl (fl (sc * m) - m) / 2)"
proof -
  define A where "A = fl (ss - m)"
  define B where "B = fl (fl (sc * m) - m)"
  have AB: "A \<le> B"
    unfolding A_def B_def using assms by (intro fl_mono) simp
  have L: "fl (B / 2) = B / 2"
    by (simp add: fl_half B_def)
  have "fl (A - B / 2) \<le> fl (B / 2)"
    using AB by (intro fl_mono) simp
  then show ?thesis
    unfolding A_def [symmetric] B_def [symmetric] L .
qed

lemma getTranslate_clamped:
  assumes "num_of (if ax = AxisX then width img else height img) = Fin m"
    and "(if ax = AxisX then screenWidth scr else screenHeight scr) = Fin ss"
    and "(if ax = AxisX then dadd (tx xy) d else dadd (ty xy) e) = Fin t"
    and "ss \<le> fl (sc * m)"
  shows "getTranslate scr xy img u d e (Fin sc) ax =
           Fin (max (fl (fl (ss - m) - fl (fl (fl (sc * m) - m) / 2)))
                  (min (fl (fl (fl (sc * m) - m) / 2)) t))"
  using assms
  by (cases ax) (auto simp: getTranslate_def Let_def js_gt_def max_def min_def)

text \<open>
  The image is scaled about its centre, so with the translate \<open>t\<close> its edges on the screen
  are at \<open>t - (scale * imageSize - imageSize) / 2\<close> and at that plus \<open>scale * imageSize\<close>.
  For a translate between the two computed limits the first edge is right of 0 and the
  second left of \<open>screenSize\<close> by no more than the rounding errors of the limits, which
  are bounded here by \<open>2^-50\<close> times the sum of the three sizes.
\<close>

lemma edges_within_rounding:
  fixes ss m sc t :: real
  assumes "0 \<le> m" and "0 \<le> sc" and "0 \<le> ss" and "ss \<le> fl (sc * m)"
    and "fl (fl (ss - m) - fl (fl (fl (sc * m) - m) / 2)) \<le> t"
    and "t \<le> fl (fl (fl (sc * m) - m) / 2)"
  shows "t - (sc * m - m) / 2 \<le> (ss + m + sc * m) / 2 ^ 50"
    and "ss - (ss + m + sc * m) / 2 ^ 50 \<le> t - (sc * m - m) / 2 + sc * m"
proof -
  define s where "s = sc * m"
  define P where "P = fl s"
  define B where "B = fl (P - m)"
  define A where "A = fl (ss - m)"
  define R where "R = fl (A - B / 2)"
  have L: "fl (B / 2) = B / 2"
    by (simp add: fl_half B_def)
  have bound: "x - y \<le> z / 2 ^ 53 \<and> y - x \<le> z / 2 ^ 53"
    if "\<bar>x - y\<bar> \<le> \<bar>y\<bar> / 2 ^ 53" and "\<bar>y\<bar> \<le> z" for x y z :: real
  proof -
    have "\<bar>y\<bar> / 2 ^ 53 \<le> z / 2 ^ 53"
      using that(2) by (intro divide_right_mono) simp_all
    then have "\<bar>x - y\<bar> \<le> z / 2 ^ 53" using that(1) by linarith
    then show ?thesis unfolding abs_le_iff by simp
  qed
  have s0: "0 \<le> s" using assms(1,2) by (simp add: s_def)
  have P0: "0 \<le> P" using assms(3,4) by (simp add: P_def s_def)
  have eP: "P - s \<le> s / 2 ^ 53 \<and> s - P \<le> s / 2 ^ 53"
    using fl_error [of s] s0 by (intro bound) (simp_all add: P_def)
  have eB: "B - (P - m) \<le> (P + m) / 2 ^ 53 \<and> (P - m) - B \<le> (P + m) / 2 ^ 53"
    using fl_error [of "P - m"] P0 assms(1) by (intro bound) (simp_all add: B_def)
  have eA: "A - (ss - m) \<le> (ss + m) / 2 ^ 53 \<and> (ss - m) - A \<le> (ss + m) / 2 ^ 53"
    using fl_error [of "ss - m"] assms(1,3) by (intro bound) (simp_all add: A_def)
  have Bsize: "B \<le> 2 * (P + m) \<and> - B \<le> 2 * (P + m)"
    using eB P0 assms(1) by simp
  have Asize: "A \<le> 2 * (ss + m) \<and> - A \<le> 2 * (ss + m)"
    using eA assms(1,3) by simp
  have "A - B / 2 \<le> 2 * (ss + m) + (P + m) \<and> - (A - B / 2) \<le> 2 * (ss + m) + (P + m)"
    using Asize Bsize by auto
  then have "\<bar>A - B / 2\<bar> \<le> 2 * (ss + m) + (P + m)"
    unfolding abs_le_iff .
  then have eR: "R - (A - B / 2) \<le> (2 * (ss + m) + (P + m)) / 2 ^ 53
      \<and> (A - B / 2) - R \<le> (2 * (ss + m) + (P + m)) / 2 ^ 53"
    using fl_error [of "A - B / 2"] by (intro bound) (simp_all add: R_def)
  have t: "R \<le> t" "t \<le> B / 2"
    using assms(5,6) unfolding s_def [symmetric] P_def [symmetric] B_def [symmetric]
      A_def [symmetric] L R_def [symmetric] by simp_all
  have k: "(2::real) ^ 53 = 9007199254740992" "(2::real) ^ 50 = 1125899906842624" by simp_all
  show "t - (sc * m - m) / 2 \<le> (ss + m + sc * m) / 2 ^ 50"
    unfolding s_def [symmetric] using t(2) eP eB s0 P0 assms(1,3) unfolding k
    by argo
  show "ss - (ss + m + sc * m) / 2 ^ 50 \<le> t - (sc * m - m) / 2 + sc * m"
    unfolding s_def [symmetric] using t(1) eP eB eA eR s0 P0 assms(1,3) unfolding k
    by argo
qed

text \<open>
  On an axis where the scaled image is smaller than the screen, an image with
  \<open>width >= height\<close> is centred; for any other image the result is NaN, because
  \<open>imageInitialScale\<close> is undefined.
\<close>

lemma getTranslate_landscape:
  assumes "js_ge (num_of (width img)) (num_of (height img))"
    and "js_gt (if ax = AxisX then screenWidth scr else screenHeight scr)
           (dmul sc (num_of (if ax = AxisX then width img else height img)))"
  shows "getTranslate scr xy img u d e sc ax =
           ddiv (dsub (if ax = AxisX then screenWidth scr else screenHeight scr)
                      (num_of (if ax = AxisX then width img else height img))) (Fin 2)"
  using assms
  by (cases ax) (simp_all add: getTranslate_def Let_def)

lemma getTranslate_portrait:
  assumes "\<not> js_ge (num_of (width img)) (num_of (height img))"
    and "js_gt (if ax = AxisX then screenWidth scr else screenHeight scr)
           (dmul sc (num_of (if ax = AxisX then width img else height img)))"
  shows "getTranslate scr xy img None d e sc ax = NaN"
  using assms
  by (cases ax) (simp_all add: getTranslate_def Let_def num_of_def)

text \<open>
  C3. With finite non-negative numbers throughout, on an axis where the scaled image, as
  the program computes its size, is at least as large as the screen (the test
  \<open>screenSize > scale * imageSize\<close> fails), \<open>calcultateNextTranslate\<close> returns the moved
  translate clamped to \<open>[rightLimit, leftLimit]\<close>, where \<open>leftLimit\<close> is
  \<open>(scale * imageSize - imageSize) / 2\<close> and \<open>rightLimit\<close> is
  \<open>screenSize - imageSize - leftLimit\<close>, each operation rounded to a double as the program
  does. The limits are in order and the result lies between them. The edges of the image
  on the screen, at \<open>translate - (scale * imageSize - imageSize) / 2\<close> and at that plus
  \<open>scale * imageSize\<close>, leave at most \<open>(screenSize + imageSize + scale * imageSize) * 2^-50\<close>
  of the screen uncovered on either side.
\<close>

theorem calcultateNextTranslate_clamped:
  assumes "js_nth (images s) (imageIndex s) = Some img"
    and "getInitialScale s None = Inr n"
    and "imageTranslate s = \<lparr>tx = Fin x, ty = Fin y\<rparr>"
    and "width img = Some (Fin w)" and "height img = Some (Fin h)"
    and "0 \<le> w" and "0 \<le> h" and "0 \<le> sw" and "0 \<le> sh" and "0 \<le> sc"
  shows "\<exists>t. calcultateNextTranslate \<lparr>screenWidth = Fin sw, screenHeight = Fin sh\<rparr> s
                (Fin d) (Fin e) (Fin sc) = Inr t
     \<and> (sw \<le> fl (sc * w) \<longrightarrow>
          (let leftLimit = fl (fl (fl (sc * w) - w) / 2);
               rightLimit = fl (fl (sw - w) - leftLimit);
               t' = max rightLimit (min leftLimit (fl (x + d)))
           in tx t = Fin t' \<and> rightLimit \<le> t' \<and> t' \<le> leftLimit
              \<and> t' - (sc * w - w) / 2 \<le> (sw + w + sc * w) / 2 ^ 50
              \<and> sw - (sw + w + sc * w) / 2 ^ 50 \<le> t' - (sc * w - w) / 2 + sc * w))
     \<and> (sh \<le> fl (sc * h) \<longrightarrow>
          (let leftLimit = fl (fl (fl (sc * h) - h) / 2);
               rightLimit = fl (fl (sh - h) - leftLimit);
               t' = max rightLimit (min leftLimit (fl (y + e)))
           in ty t = Fin t' \<and> rightLimit \<le> t' \<and> t' \<le> leftLimit
              \<and> t' - (sc * h - h) / 2 \<le> (sh + h + sc * h) / 2 ^ 50
              \<and> sh - (sh + h + sc * h) / 2 ^ 50 \<le> t' - (sc * h - h) / 2 + sc * h))"
proof -
  let ?scr = "\<lparr>screenWidth = Fin sw, screenHeight = Fin sh\<rparr>"
  let ?u = "number_property n ''imageInitialScale''"
  let ?t = "\<lparr>tx = getTranslate ?scr (imageTranslate s) img ?u (Fin d) (Fin e) (Fin sc) AxisX,
            ty = getTranslate ?scr (imageTranslate s) img ?u (Fin d) (Fin e) (Fin sc) AxisY\<rparr>"
  have res: "calcultateNextTranslate ?scr s (Fin d) (Fin e) (Fin sc) = Inr ?t"
    using assms(1,2) by (simp add: calcultateNextTranslate_def Let_def)
  have X: "tx ?t = Fin (max (fl (fl (sw - w) - fl (fl (fl (sc * w) - w) / 2)))
                          (min (fl (fl (fl (sc * w) - w) / 2)) (fl (x + d))))"
    if "sw \<le> fl (sc * w)"
    using assms(3,4) that by (simp add: getTranslate_clamped num_of_def)
  have Y: "ty ?t = Fin (max (fl (fl (sh - h) - fl (fl (fl (sc * h) - h) / 2)))
                          (min (fl (fl (fl (sc * h) - h) / 2)) (fl (y + e))))"
    if "sh \<le> fl (sc * h)"
    using assms(3,5) that by (simp add: getTranslate_clamped num_of_def)
  have between: "r \<le> max r (min l v) \<and> max r (min l v) \<le> l" if "r \<le> l" for r l v :: real
    using that by auto
  have axis: "let leftLimit = fl (fl (fl (sc * m) - m) / 2);
               rightLimit = fl (fl (ss - m) - leftLimit);
               t' = max rightLimit (min leftLimit v)
           in rightLimit \<le> t' \<and> t' \<le> leftLimit
              \<and> t' - (sc * m - m) / 2 \<le> (ss + m + sc * m) / 2 ^ 50
              \<and> ss - (ss + m + sc * m) / 2 ^ 50 \<le> t' - (sc * m - m) / 2 + sc * m"
    if "ss \<le> fl (sc * m)" and "0 \<le> m" and "0 \<le> ss" for ss m v :: real
  proof -
    let ?L = "fl (fl (fl (sc * m) - m) / 2)"
    let ?R = "fl (fl (ss - m) - ?L)"
    let ?T = "max ?R (min ?L v)"
    have b: "?R \<le> ?T" "?T \<le> ?L"
      using between [OF limits_ordered [OF that(1)], of v] by simp_all
    show ?thesis
      unfolding Let_def
      using b edges_within_rounding [OF that(2) assms(10) that(3) that(1) b] by blast
  qed
  have "sw \<le> fl (sc * w) \<longrightarrow>
          (let leftLimit = fl (fl (fl (sc * w) - w) / 2);
               rightLimit = fl (fl (sw - w) - leftLimit);
               t' = max rightLimit (min leftLimit (fl (x + d)))
           in tx ?t = Fin t' \<and> rightLimit \<le> t' \<and> t' \<le> leftLimit
              \<and> t' - (sc * w - w) / 2 \<le> (sw + w + sc * w) / 2 ^ 50
              \<and> sw - (sw + w + sc * w) / 2 ^ 50 \<le> t' - (sc * w - w) / 2 + sc * w)"
  proof
    assume a: "sw \<le> fl (sc * w)"
    show "let leftLimit = fl (fl (fl (sc * w) - w) / 2);
               rightLimit = fl (fl (sw - w) - leftLimit);
               t' = max rightLimit (min leftLimit (fl (x + d)))
           in tx ?t = Fin t' \<and> rightLimit \<le> t' \<and> t' \<le> leftLimit
              \<and> t' - (sc * w - w) / 2 \<le> (sw + w + sc * w) / 2 ^ 50
              \<and> sw - (sw + w + sc * w) / 2 ^ 50 \<le> t' - (sc * w - w) / 2 + sc * w"
      using axis [OF a assms(6,8), of "fl (x + d)"] unfolding Let_def X [OF a] by blast
  qed
  moreover have "sh \<le> fl (sc * h) \<longrightarrow>
          (let leftLimit = fl (fl (fl (sc * h) - h) / 2);
               rightLimit = fl (fl (sh - h) - leftLimit);
               t' = max rightLimit (min leftLimit (fl (y + e)))
           in ty ?t = Fin t' \<and> rightLimit \<le> t' \<and> t' \<le> leftLimit
              \<and> t' - (sc * h - h) / 2 \<le> (sh + h + sc * h) / 2 ^ 50
              \<and> sh - (sh + h + sc * h) / 2 ^ 50 \<le> t' - (sc * h - h) / 2 + sc * h)"
  proof
    assume a: "sh \<le> fl (sc * h)"
    show "let leftLimit = fl (fl (fl (sc * h) - h) / 2);
               rightLimit = fl (fl (sh - h) - leftLimit);
               t' = max rightLimit (min leftLimit (fl (y + e)))
           in ty ?t = Fin t' \<and> rightLimit \<le> t' \<and> t' \<le> leftLimit
              \<and> t' - (sc * h - h) / 2 \<le> (sh + h + sc * h) / 2 ^ 50
              \<and> sh - (sh + h + sc * h) / 2 ^ 50 \<le> t' - (sc * h - h) / 2 + sc * h"
      using axis [OF a assms(7,9), of "fl (y + e)"] unfolding Let_def Y [OF a] by blast
  qed
  ultimately show ?thesis
    using res by blast
qed

lemma shown_ok:
  "getInitialScale (shown scr img rest) None = Inr (scale (getInitalParams scr img))"
  "getInitialTranslate (shown scr img rest) None = Inr (translate (getInitalParams scr img))"
  "js_nth (images (shown scr img rest)) (imageIndex (shown scr img rest)) = Some img"
  by (simp_all add: shown_def Let_def getInitialScale_def getInitialTranslate_def js_nth_0)

lemma shown_fields:
  "imageScale (shown scr img rest) = scale (getInitalParams scr img)"
  "imageScaleValue (shown scr img rest) = newValue (scale (getInitalParams scr img))"
  "imageTranslate (shown scr img rest) = translate (getInitalParams scr img)"
  "doubleTapTimer (shown scr img rest) = False"
  "isScrolling (shown scr img rest) = False"
  by (simp_all add: shown_def Let_def)

theorem calcultateNextTranslate_clamped_witness:
  "\<exists>t. calcultateNextTranslate screen0 (shown screen0 landscape [])
          (Fin 900) (Fin (- 300)) (Fin 2) = Inr t
     \<and> tx t = Fin 400 \<and> ty t = Fin 200"
  using calcultateNextTranslate_clamped
          [where s = "shown screen0 landscape []" and img = landscape and n = "Fin (1 / 2)"
             and x = "- 200" and y = 200 and w = 800 and h = 400 and sw = 400 and sh = 800
             and d = 900 and e = "- 300" and sc = 2]
  by (simp add: shown_ok shown_fields params_landscape
        params_landscape [unfolded screen0_def landscape_def] landscape_def screen0_def Let_def)

text \<open>The arguments are three times the initial scale, the scale times 1680, and
  \<open>-1280 - leftLimit\<close>.\<close>

lemma fl_broad:
  "fl (12867427506772845 / 18014398509481984) = 3216856876693211 / 4503599627370496"
  "fl (337769972052787155 / 281474976710656) = 5277655813324799 / 4398046511104"
  "fl (- (9147936743096319 / 8796093022208)) = - 1040"
  using fl_eval [of "- 1" "12867427506772845 / 18014398509481984"]
    fl_eval [of 10 "337769972052787155 / 281474976710656"]
    fl_eval [of 10 "- (9147936743096319 / 8796093022208)"]
  by (simp_all add: powr_minus powr_neg_numeral rne_def Let_def)

lemma fl_broad_doubles:
  "fl (- (2111062325329921 / 4398046511104)) = - (2111062325329921 / 4398046511104)"
  "fl (- (2111062325329921 / 8796093022208)) = - (2111062325329921 / 8796093022208)"
  "fl (- (7036874417766399 / 8796093022208)) = - (7036874417766399 / 8796093022208)"
  "fl (3518437208883199 / 8796093022208) = 3518437208883199 / 8796093022208"
  using fl_dyadic [of "- 2111062325329921" 42] fl_dyadic [of "- 2111062325329921" 43]
    fl_dyadic [of "- 7036874417766399" 43] fl_dyadic [of 3518437208883199 43]
  by simp_all

lemma fl_broad_height: "fl (80421421917330275 / 281474976710656) \<le> 400"
  using fl_mono [of "80421421917330275 / 281474976710656" 400] by simp

text \<open>
  C3, as stated, fails where the limits are rounded. The image \<open>broad\<close> (1680 by 400) has
  the initial scale 0.23809523809523808 and the initial translate \<open>(-640, 200)\<close>; a double
  tap zooms it to three times that scale, 0.7142857142857142, and leaves the translate as
  it is. It is then released after a drag of 1000 to the left. On the x axis the program
  finds \<open>scale * imageSize = 1199.9999999999998\<close>, not less than the screen width 400, the
  left limit \<open>-240.0000000000001\<close> and the right limit \<open>-1040\<close>, which it returns. The
  interval of the claim ends at \<open>screenSize - imageSize - (scale * imageSize - imageSize) / 2\<close>,
  which is greater than \<open>-1040\<close>: the translate is outside the interval. The right edge of
  the image is left of the right edge of the screen, both at its exact position,
  \<open>translate + imageSize + (scale * imageSize - imageSize) / 2\<close>, and as the program's
  arithmetic gives it, \<open>translate - leftLimit + scale * imageSize = 399.9999999999999\<close>.
\<close>

theorem pan_exposes_screen_edge:
  "calcultateNextTranslate screen0 (shown screen0 broad []) (Fin (- 1000)) (Fin 0)
       (Fin (3216856876693211 / 4503599627370496)) =
     Inr \<lparr>tx = Fin (- 1040), ty = Fin 200\<rparr>
   \<and> dmul (scale (getInitalParams screen0 broad)) SCALE_MAX_MULTIPLIER =
        Fin (3216856876693211 / 4503599627370496)
   \<and> imageTranslate (shown screen0 broad []) = \<lparr>tx = Fin (- 640), ty = Fin 200\<rparr>
   \<and> js_ge (dmul (Fin (3216856876693211 / 4503599627370496)) (num_of (width broad)))
        (screenWidth screen0)
   \<and> js_ge (js_mul (Fin (3216856876693211 / 4503599627370496)) (num_of (width broad)))
        (screenWidth screen0)
   \<and> - 1040 < (400 - 1680 - (3216856876693211 / 4503599627370496 * 1680 - 1680) / 2 :: real)
   \<and> - 1040 + 1680 + (3216856876693211 / 4503599627370496 * 1680 - 1680) / 2 < (400 :: real)
   \<and> dadd (dsub (Fin (- 1040))
               (ddiv (dsub (dmul (Fin (3216856876693211 / 4503599627370496)) (Fin 1680))
                           (Fin 1680)) (Fin 2)))
        (dmul (Fin (3216856876693211 / 4503599627370496)) (Fin 1680)) =
        Fin (3518437208883199 / 8796093022208)
   \<and> js_lt (Fin (3518437208883199 / 8796093022208)) (screenWidth screen0)"
  using fl_broad_height
  by (simp add: calcultateNextTranslate_def shown_ok shown_fields params_broad
        params_broad [unfolded screen0_def broad_def] Let_def
        getTranslate_def number_property_def num_of_def broad_def screen0_def js_gt_def
        js_ge_def SCALE_MAX_MULTIPLIER_def fl_broad fl_broad_doubles)

lemma portrait_release_translate:
  "calcultateNextTranslate screen0 (shown screen0 portrait []) (Fin 0) (Fin 0) (Fin 1) =
     Inr \<lparr>tx = NaN, ty = NaN\<rparr>"
  by (simp add: calcultateNextTranslate_def shown_ok shown_fields params_portrait
        params_portrait [unfolded screen0_def portrait_def] Let_def
        getTranslate_def number_property_def num_of_def portrait_def screen0_def js_gt_def
        js_ge_def)

text \<open>
  C4. The claim is that on an axis where the scaled image is smaller than the screen the
  returned translate centres the image, whatever its shape. For the portrait image (100 by
  200) at scale 1 on the 400 by 800 screen, where the centring translate is (150, 300),
  \<open>calcultateNextTranslate\<close> returns NaN on both axes.
\<close>

theorem calcultateNextTranslate_portrait_NaN:
  "calcultateNextTranslate screen0 (shown screen0 portrait []) (Fin 0) (Fin 0) (Fin 1) =
     Inr \<lparr>tx = NaN, ty = NaN\<rparr>
   \<and> translate (getInitalParams screen0 portrait) = \<lparr>tx = Fin 150, ty = Fin 300\<rparr>"
  by (simp add: portrait_release_translate params_portrait)

section \<open>Releasing a gesture\<close>

lemma togglePanels_keeps [simp]:
  "images (togglePanels s b) = images s"
  "imageIndex (togglePanels s b) = imageIndex s"
  "imageInitialParams (togglePanels s b) = imageInitialParams s"
  "imageTranslate (togglePanels s b) = imageTranslate s"
  "imageScale (togglePanels s b) = imageScale s"
  "imageScaleValue (togglePanels s b) = imageScaleValue s"
  "imageTranslateValue_x (togglePanels s b) = imageTranslateValue_x s"
  "imageTranslateValue_y (togglePanels s b) = imageTranslateValue_y s"
  "modalBackgroundOpacity (togglePanels s b) = modalBackgroundOpacity s"
  "doubleTapTimer (togglePanels s b) = doubleTapTimer s"
  "isVisible (togglePanels s b) = isVisible s"
  "onClose_isFunction (togglePanels s b) = onClose_isFunction s"
  "onClose_calls (togglePanels s b) = onClose_calls s"
  by (simp_all add: togglePanels_def Let_def)

lemma tap_keeps [simp]:
  "images (fst (tap s a b)) = images s"
  "imageIndex (fst (tap s a b)) = imageIndex s"
  "imageInitialParams (fst (tap s a b)) = imageInitialParams s"
  "imageTranslate (fst (tap s a b)) = imageTranslate s"
  "imageScale (fst (tap s a b)) = imageScale s"
  "imageTranslateValue_x (fst (tap s a b)) = imageTranslateValue_x s"
  "imageTranslateValue_y (fst (tap s a b)) = imageTranslateValue_y s"
  "modalBackgroundOpacity (fst (tap s a b)) = modalBackgroundOpacity s"
  "isVisible (fst (tap s a b)) = isVisible s"
  "onClose_isFunction (fst (tap s a b)) = onClose_isFunction s"
  "onClose_calls (fst (tap s a b)) = onClose_calls s"
  "doubleTapTimer (fst (tap s a b)) = (\<not> doubleTapTimer s)"
  by (simp_all add: tap_def Let_def)

lemma getInitialScale_cong:
  "imageInitialParams s1 = imageInitialParams s \<Longrightarrow> imageIndex s1 = imageIndex s \<Longrightarrow>
   getInitialScale s1 index = getInitialScale s index"
  by (cases index) (simp_all add: getInitialScale_def)

lemma calcultateNextTranslate_cong:
  "images s1 = images s \<Longrightarrow> imageInitialParams s1 = imageInitialParams s \<Longrightarrow> imageIndex s1 = imageIndex s \<Longrightarrow>
   imageTranslate s1 = imageTranslate s \<Longrightarrow>
   calcultateNextTranslate scr s1 a b c = calcultateNextTranslate scr s a b c"
  by (simp add: calcultateNextTranslate_def getInitialScale_cong [of s1 s] split: option.splits sum.splits)

lemma tap_getInitialScale [simp]:
  "getInitialScale (fst (tap s a b)) index = getInitialScale s index"
  by (rule getInitialScale_cong) simp_all

lemma tap_calcultateNextTranslate [simp]:
  "calcultateNextTranslate scr (fst (tap s a b)) d e f = calcultateNextTranslate scr s d e f"
  by (rule calcultateNextTranslate_cong) simp_all

lemma tapped_simps [simp]:
  "getInitialScale (fst (if c then tap s a b else (s, a))) index = getInitialScale s index"
  "calcultateNextTranslate scr (fst (if c then tap s a b else (s, a))) d e f = calcultateNextTranslate scr s d e f"
  by simp_all

lemma onGestureRelease_Inr:
  assumes "getInitialScale s None = Inr init" and "getInitialTranslate s None = Inr it"
    and "T = (if ev \<and> js_not (dx g) \<and> js_not (dy g)
                 \<and> scalesAreEqual (imageScale s) (anim_value (imageScaleValue s))
              then tap s (anim_value (imageScaleValue s)) init
              else (s, anim_value (imageScaleValue s)))"
    and "calcultateNextTranslate scr s (dx g) (dy g) (snd T) = Inr next"
  shows "onGestureRelease scr s ev g =
           Inr (finishRelease (fst T) (snd T) init init it next
                  (anim_value (modalBackgroundOpacity s)) (vy g))"
  using assms(1,2,4) unfolding assms(3) onGestureRelease_def Let_def
  by (simp split del: if_split)

lemma onGestureRelease_InrD:
  assumes "onGestureRelease scr s ev g = Inr s'"
  shows "\<exists>init it next T. getInitialScale s None = Inr init \<and> getInitialTranslate s None = Inr it
     \<and> T = (if ev \<and> js_not (dx g) \<and> js_not (dy g)
                 \<and> scalesAreEqual (imageScale s) (anim_value (imageScaleValue s))
              then tap s (anim_value (imageScaleValue s)) init
              else (s, anim_value (imageScaleValue s)))
     \<and> calcultateNextTranslate scr s (dx g) (dy g) (snd T) = Inr next
     \<and> s' = finishRelease (fst T) (snd T) init init it next
                  (anim_value (modalBackgroundOpacity s)) (vy g)"
proof -
  obtain init where a: "getInitialScale s None = Inr init"
    using assms unfolding onGestureRelease_def Let_def by (cases "getInitialScale s None") simp_all
  obtain it where b: "getInitialTranslate s None = Inr it"
    using assms a unfolding onGestureRelease_def Let_def by (cases "getInitialTranslate s None") simp_all
  define T where "T = (if ev \<and> js_not (dx g) \<and> js_not (dy g)
                 \<and> scalesAreEqual (imageScale s) (anim_value (imageScaleValue s))
              then tap s (anim_value (imageScaleValue s)) init
              else (s, anim_value (imageScaleValue s)))"
  obtain nxt where c: "calcultateNextTranslate scr s (dx g) (dy g) (snd T) = Inr nxt"
    using assms a b unfolding onGestureRelease_def Let_def T_def
    by (cases "calcultateNextTranslate scr s (dx g) (dy g) (snd T)") (simp_all add: T_def split del: if_split)
  have d: "s' = finishRelease (fst T) (snd T) init init it nxt
                  (anim_value (modalBackgroundOpacity s)) (vy g)"
    using onGestureRelease_Inr [OF a b T_def c] assms by simp
  show ?thesis
    by (rule exI [of _ init], rule exI [of _ it], rule exI [of _ nxt], rule exI [of _ T],
        intro conjI) (rule a b T_def c d)+
qed

text \<open>
  What the second half of a release does to the fields. The animation it starts on
  \<open>imageTranslateValue.y\<close> stops the one that runs there: when that is the closing
  animation of an earlier release, the overlay is hidden and \<open>onClose\<close> called at once.
\<close>

lemma finishRelease_fields [simp]:
  "imageScale (finishRelease s1 sv i i2 it nx op v) = sv"
  "imageTranslate (finishRelease s1 sv i i2 it nx op v) =
     \<lparr>tx = (if isNaN (tx nx) then tx it else tx nx), ty = (if isNaN (ty nx) then ty it else ty nx)\<rparr>"
  "anim_close (imageTranslateValue_y (finishRelease s1 sv i i2 it nx op v)) =
     (js_seq sv i \<and> js_ge (js_abs v) IMAGE_SPEED_FOR_CLOSE)"
  "anim_toValue (imageTranslateValue_x (finishRelease s1 sv i i2 it nx op v)) =
     Some (if isNaN (tx nx) then tx it else tx nx)"
  "anim_toValue (imageTranslateValue_y (finishRelease s1 sv i i2 it nx op v)) =
     Some (if js_seq sv i \<and> js_ge (js_abs v) IMAGE_SPEED_FOR_CLOSE
           then js_add (if isNaN (ty nx) then ty it else ty nx) (js_mul (Fin 400) v)
           else (if isNaN (ty nx) then ty it else ty nx))"
  "images (finishRelease s1 sv i i2 it nx op v) = images s1"
  "imageIndex (finishRelease s1 sv i i2 it nx op v) = imageIndex s1"
  "imageInitialParams (finishRelease s1 sv i i2 it nx op v) = imageInitialParams s1"
  "imageScaleValue (finishRelease s1 sv i i2 it nx op v) = imageScaleValue s1"
  "doubleTapTimer (finishRelease s1 sv i i2 it nx op v) = doubleTapTimer s1"
  "isVisible (finishRelease s1 sv i i2 it nx op v) =
     (isVisible s1 \<and> \<not> anim_close (imageTranslateValue_y s1))"
  "onClose_isFunction (finishRelease s1 sv i i2 it nx op v) = onClose_isFunction s1"
  "onClose_calls (finishRelease s1 sv i i2 it nx op v) =
     (if anim_close (imageTranslateValue_y s1) \<and> onClose_isFunction s1
      then Suc (onClose_calls s1) else onClose_calls s1)"
  by (simp_all add: finishRelease_def Let_def timing_def timing_y_def stopAnimation_eq)

lemma animationsFinished_fields [simp]:
  "imageScale (animationsFinished s) = imageScale s"
  "images (animationsFinished s) = images s"
  "imageIndex (animationsFinished s) = imageIndex s"
  "imageInitialParams (animationsFinished s) = imageInitialParams s"
  "doubleTapTimer (animationsFinished s) = doubleTapTimer s"
  "imageScaleValue (animationsFinished s) = finish (imageScaleValue s)"
  "isVisible (animationsFinished s) = (isVisible s \<and> \<not> anim_close (imageTranslateValue_y s))"
  "onClose_calls (animationsFinished s) =
     (if anim_close (imageTranslateValue_y s) \<and> onClose_isFunction s
      then Suc (onClose_calls s) else onClose_calls s)"
  by (simp_all add: animationsFinished_def close_def Let_def)

lemma fst_tapped [simp]:
  "images (fst (if c then tap s a b else (s, a))) = images s"
  "imageIndex (fst (if c then tap s a b else (s, a))) = imageIndex s"
  "imageInitialParams (fst (if c then tap s a b else (s, a))) = imageInitialParams s"
  "imageTranslateValue_y (fst (if c then tap s a b else (s, a))) = imageTranslateValue_y s"
  "isVisible (fst (if c then tap s a b else (s, a))) = isVisible s"
  "onClose_isFunction (fst (if c then tap s a b else (s, a))) = onClose_isFunction s"
  "onClose_calls (fst (if c then tap s a b else (s, a))) = onClose_calls s"
  by simp_all

text \<open>
  C5. A release that returns starts the closing animation, whose completion callback calls
  \<open>close\<close>, exactly when the scale it stores in the state equals the current image's
  initial scale and \<open>|vy| >= IMAGE_SPEED_FOR_CLOSE\<close>. The stored scale is the animated scale,
  or the target of the zoom toggle when the release is the second tap of a double tap.
  The release itself hides the overlay exactly when the closing animation of an earlier
  release is still running: it stops that animation, whose callback is called then. When
  the animations have run, the overlay is hidden in these two cases and in no other, and
  \<open>onClose\<close> (if it is a function) has been called once for each of the two that applies.
  A release that is not the second tap of a double tap never starts the closing animation
  while the animated scale differs from the initial scale.
\<close>

theorem onGestureRelease_closes:
  assumes "onGestureRelease scr s ev g = Inr s'" and "getInitialScale s None = Inr init"
  shows "(anim_close (imageTranslateValue_y s') \<longleftrightarrow>
            js_seq (imageScale s') init \<and> js_ge (js_abs (vy g)) IMAGE_SPEED_FOR_CLOSE)
       \<and> (isVisible s' \<longleftrightarrow> isVisible s \<and> \<not> anim_close (imageTranslateValue_y s))
       \<and> (isVisible (animationsFinished s') \<longleftrightarrow>
            isVisible s \<and> \<not> anim_close (imageTranslateValue_y s)
            \<and> \<not> anim_close (imageTranslateValue_y s'))
       \<and> onClose_calls (animationsFinished s') =
            onClose_calls s
            + (if onClose_isFunction s
               then (if anim_close (imageTranslateValue_y s) then 1 else 0)
                    + (if anim_close (imageTranslateValue_y s') then 1 else 0)
               else 0)
       \<and> (\<not> (ev \<and> js_not (dx g) \<and> js_not (dy g) \<and> doubleTapTimer s) \<longrightarrow>
            \<not> js_seq (anim_value (imageScaleValue s)) init \<longrightarrow>
            \<not> anim_close (imageTranslateValue_y s'))"
proof -
  obtain init' it nxt T where r:
    "getInitialScale s None = Inr init'"
    "T = (if ev \<and> js_not (dx g) \<and> js_not (dy g)
                 \<and> scalesAreEqual (imageScale s) (anim_value (imageScaleValue s))
              then tap s (anim_value (imageScaleValue s)) init'
              else (s, anim_value (imageScaleValue s)))"
    "s' = finishRelease (fst T) (snd T) init' init' it nxt
                  (anim_value (modalBackgroundOpacity s)) (vy g)"
    using onGestureRelease_InrD [OF assms(1)] by blast
  have i: "init' = init" using r(1) assms(2) by simp
  have plain: "snd T = anim_value (imageScaleValue s)"
    if "\<not> (ev \<and> js_not (dx g) \<and> js_not (dy g) \<and> doubleTapTimer s)"
    using that unfolding r(2) by (auto simp: tap_def)
  show ?thesis
    unfolding r(3) i using plain by (simp add: r(2) i)
qed

lemma getInitialTranslate_ok:
  "getInitialScale s None = Inr init \<Longrightarrow> \<exists>it. getInitialTranslate s None = Inr it"
  by (auto simp: getInitialScale_def getInitialTranslate_def split: option.splits)

lemma calcultateNextTranslate_ok:
  "getInitialScale s None = Inr init \<Longrightarrow> js_nth (images s) (imageIndex s) = Some img \<Longrightarrow>
   \<exists>t. calcultateNextTranslate scr s a b c = Inr t"
  by (simp add: calcultateNextTranslate_def Let_def)

lemma release_tap:
  assumes "getInitialScale s None = Inr init"
    and "js_nth (images s) (imageIndex s) = Some img"
    and "js_not (dx g)" and "js_not (dy g)"
    and "scalesAreEqual (imageScale s) (anim_value (imageScaleValue s))"
  shows "\<exists>s'. onGestureRelease scr s True g = Inr s'
     \<and> images s' = images s \<and> imageIndex s' = imageIndex s
     \<and> imageInitialParams s' = imageInitialParams s
     \<and> doubleTapTimer s' = (\<not> doubleTapTimer s)
     \<and> imageScale s' =
          (if doubleTapTimer s
           then (if scalesAreEqual init (anim_value (imageScaleValue s))
                 then dmul (anim_value (imageScaleValue s)) SCALE_MAX_MULTIPLIER else init)
           else anim_value (imageScaleValue s))
     \<and> imageScaleValue s' =
          (if doubleTapTimer s
           then timing (if scalesAreEqual init (anim_value (imageScaleValue s))
                        then dmul (anim_value (imageScaleValue s)) SCALE_MAX_MULTIPLIER else init)
                  (imageScaleValue s)
           else imageScaleValue s)
     \<and> (anim_close (imageTranslateValue_y s') \<longleftrightarrow>
          js_seq (imageScale s') init \<and> js_ge (js_abs (vy g)) IMAGE_SPEED_FOR_CLOSE)"
proof -
  let ?T = "tap s (anim_value (imageScaleValue s)) init"
  obtain it where it: "getInitialTranslate s None = Inr it"
    using getInitialTranslate_ok [OF assms(1)] by blast
  obtain nxt where nxt: "calcultateNextTranslate scr s (dx g) (dy g) (snd ?T) = Inr nxt"
    using calcultateNextTranslate_ok [OF assms(1,2)] by blast
  have T: "?T = (if True \<and> js_not (dx g) \<and> js_not (dy g)
                 \<and> scalesAreEqual (imageScale s) (anim_value (imageScaleValue s))
              then tap s (anim_value (imageScaleValue s)) init
              else (s, anim_value (imageScaleValue s)))"
    using assms(3,4,5) by simp
  have r: "onGestureRelease scr s True g =
           Inr (finishRelease (fst ?T) (snd ?T) init init it nxt
                  (anim_value (modalBackgroundOpacity s)) (vy g))"
    by (rule onGestureRelease_Inr [OF assms(1) it T nxt])
  have sv: "snd ?T = (if doubleTapTimer s
           then (if scalesAreEqual init (anim_value (imageScaleValue s))
                 then dmul (anim_value (imageScaleValue s)) SCALE_MAX_MULTIPLIER else init)
           else anim_value (imageScaleValue s))"
    by (simp add: tap_def Let_def)
  have sval: "imageScaleValue (fst ?T) = (if doubleTapTimer s
           then timing (if scalesAreEqual init (anim_value (imageScaleValue s))
                        then dmul (anim_value (imageScaleValue s)) SCALE_MAX_MULTIPLIER else init)
                  (imageScaleValue s)
           else imageScaleValue s)"
    by (simp add: tap_def Let_def)
  show ?thesis
    unfolding r by (simp add: sv sval del: tap_keeps split del: if_split) (simp add: sv)
qed

lemma finish_timing [simp]: "anim_value (finish (timing v a)) = v"
  by (simp add: finish_def timing_def)

lemma SCALE_EPSILON_fl: "1 / 128 < fl (1 / 100)" "fl (1 / 100) < 101 / 10000"
  using SCALE_EPSILON_bounds by (auto simp: SCALE_EPSILON_def)

lemma scalesAreEqual_Fin:
  "scalesAreEqual (Fin a) (Fin b) \<longleftrightarrow> \<bar>fl (a - b)\<bar> < fl (1 / 100)"
  by (simp add: scalesAreEqual_def SCALE_EPSILON_def)

lemma scalesAreEqual_refl [simp]: "scalesAreEqual (Fin z) (Fin z)"
  using SCALE_EPSILON_fl(1) by (simp add: scalesAreEqual_Fin)

lemma fl_minus_1 [simp]: "fl (- 1) = - 1"
  using fl_minus [of 1] by simp

lemma doubleTap_toggle:
  assumes "getInitialScale s None = Inr init"
    and "js_nth (images s) (imageIndex s) = Some img"
    and "imageScale s = Fin z" and "anim_value (imageScaleValue s) = Fin z"
    and "\<not> doubleTapTimer s"
  shows "\<exists>s'. doubleTap scr s = Inr s'
     \<and> images s' = images s \<and> imageIndex s' = imageIndex s
     \<and> imageInitialParams s' = imageInitialParams s
     \<and> \<not> doubleTapTimer s'
     \<and> imageScale s' = (if scalesAreEqual init (Fin z)
                         then dmul (Fin z) SCALE_MAX_MULTIPLIER else init)
     \<and> anim_value (imageScaleValue s') = (if scalesAreEqual init (Fin z)
                         then dmul (Fin z) SCALE_MAX_MULTIPLIER else init)"
proof -
  let ?tog = "if scalesAreEqual init (Fin z) then dmul (Fin z) SCALE_MAX_MULTIPLIER else init"
  have eq: "scalesAreEqual (imageScale s) (anim_value (imageScaleValue s))"
    using assms(3,4) by simp
  have "\<exists>s1. onGestureRelease scr s True still = Inr s1
     \<and> images s1 = images s \<and> imageIndex s1 = imageIndex s
     \<and> imageInitialParams s1 = imageInitialParams s \<and> doubleTapTimer s1
     \<and> imageScale s1 = Fin z \<and> imageScaleValue s1 = imageScaleValue s"
    using release_tap [OF assms(1,2) _ _ eq, of still scr] assms(4,5)
    by (simp add: still_def split del: if_split) blast
  then obtain s1 where s1: "onGestureRelease scr s True still = Inr s1"
    "images s1 = images s" "imageIndex s1 = imageIndex s"
    "imageInitialParams s1 = imageInitialParams s" "doubleTapTimer s1"
    "imageScale s1 = Fin z" "imageScaleValue s1 = imageScaleValue s"
    by blast
  have ok1: "getInitialScale s1 None = Inr init"
    using getInitialScale_cong [OF s1(4,3), of None] assms(1) by simp
  have img1: "js_nth (images s1) (imageIndex s1) = Some img"
    using assms(2) s1(2,3) by simp
  have az: "anim_value (imageScaleValue s1) = Fin z"
    using s1(7) assms(4) by simp
  have eq1: "scalesAreEqual (imageScale s1) (anim_value (imageScaleValue s1))"
    using s1(6) az by simp
  have "\<exists>s2. onGestureRelease scr s1 True still = Inr s2
     \<and> images s2 = images s1 \<and> imageIndex s2 = imageIndex s1
     \<and> imageInitialParams s2 = imageInitialParams s1 \<and> \<not> doubleTapTimer s2
     \<and> imageScale s2 = ?tog \<and> imageScaleValue s2 = timing ?tog (imageScaleValue s1)"
    using release_tap [OF ok1 img1 _ _ eq1, of still scr, unfolded az] s1(5)
    by (simp add: still_def split del: if_split) blast
  then obtain s2 where s2: "onGestureRelease scr s1 True still = Inr s2"
    "images s2 = images s1" "imageIndex s2 = imageIndex s1"
    "imageInitialParams s2 = imageInitialParams s1" "\<not> doubleTapTimer s2"
    "imageScale s2 = ?tog" "imageScaleValue s2 = timing ?tog (imageScaleValue s1)"
    by blast
  have "doubleTap scr s = Inr (animationsFinished s2)"
    by (simp add: doubleTap_def s1(1) s2(1))
  then show ?thesis
    using s1(2,3,4) s2(2-) by (simp split del: if_split)
qed

lemma release_moved:
  assumes "getInitialScale s None = Inr init"
    and "js_nth (images s) (imageIndex s) = Some img"
    and "\<not> (ev \<and> js_not (dx g) \<and> js_not (dy g)
            \<and> scalesAreEqual (imageScale s) (anim_value (imageScaleValue s)))"
  shows "\<exists>s'. onGestureRelease scr s ev g = Inr s'
     \<and> imageScale s' = anim_value (imageScaleValue s)
     \<and> images s' = images s \<and> imageIndex s' = imageIndex s
     \<and> imageInitialParams s' = imageInitialParams s
     \<and> imageScaleValue s' = imageScaleValue s"
proof -
  let ?T = "(s, anim_value (imageScaleValue s))"
  obtain it where it: "getInitialTranslate s None = Inr it"
    using getInitialTranslate_ok [OF assms(1)] by blast
  obtain nxt where nxt: "calcultateNextTranslate scr s (dx g) (dy g) (snd ?T) = Inr nxt"
    using calcultateNextTranslate_ok [OF assms(1,2)] by blast
  have T: "?T = (if ev \<and> js_not (dx g) \<and> js_not (dy g)
                 \<and> scalesAreEqual (imageScale s) (anim_value (imageScaleValue s))
              then tap s (anim_value (imageScaleValue s)) init
              else (s, anim_value (imageScaleValue s)))"
    by (simp only: assms(3) if_False)
  show ?thesis
    unfolding onGestureRelease_Inr [OF assms(1) it T nxt] by simp
qed

lemma shown_more:
  "isVisible (shown scr img rest) = True"
  "onClose_isFunction (shown scr img rest) = True"
  "onClose_calls (shown scr img rest) = 0"
  "anim_close (imageTranslateValue_y (shown scr img rest)) = False"
  by (simp_all add: shown_def Let_def newValue_cb_def)

text \<open>
  A release at the initial scale with a fast swipe down starts the closing animation; the
  overlay is still visible then, and hidden with \<open>onClose\<close> called once when the animation
  has run. A second release that arrives before that, here a slow one, hides the overlay
  and calls \<open>onClose\<close> at once, and starts no closing animation of its own.
\<close>

theorem onGestureRelease_closes_witness:
  "\<exists>s' s''. onGestureRelease screen0 (shown screen0 landscape []) True swipe = Inr s'
      \<and> anim_close (imageTranslateValue_y s')
      \<and> isVisible s'
      \<and> \<not> isVisible (animationsFinished s')
      \<and> onClose_calls (animationsFinished s') = 1
      \<and> onGestureRelease screen0 s' True still = Inr s''
      \<and> \<not> isVisible s'' \<and> \<not> anim_close (imageTranslateValue_y s'')
      \<and> onClose_calls (animationsFinished s'') = 1"
proof -
  let ?s = "shown screen0 landscape []"
  have ok: "getInitialScale ?s None = Inr (Fin (1 / 2))"
    by (simp add: shown_ok params_landscape)
  have "\<exists>s'. onGestureRelease screen0 ?s True swipe = Inr s' \<and> imageScale s' = Fin (1 / 2)
     \<and> images s' = images ?s \<and> imageIndex s' = imageIndex ?s
     \<and> imageInitialParams s' = imageInitialParams ?s
     \<and> imageScaleValue s' = imageScaleValue ?s"
    using release_moved [OF ok shown_ok(3), of True swipe screen0]
    by (simp add: swipe_def js_not_def shown_fields params_landscape newValue_def)
  then obtain s' where r: "onGestureRelease screen0 ?s True swipe = Inr s'"
    and sc: "imageScale s' = Fin (1 / 2)"
    and same: "images s' = images ?s" "imageIndex s' = imageIndex ?s"
      "imageInitialParams s' = imageInitialParams ?s" "imageScaleValue s' = imageScaleValue ?s"
    by blast
  have first: "anim_close (imageTranslateValue_y s') \<and> isVisible s'
      \<and> \<not> isVisible (animationsFinished s') \<and> onClose_calls (animationsFinished s') = 1"
    using onGestureRelease_closes [OF r ok] sc
    by (auto simp: swipe_def js_seq_def shown_more split: if_splits)
  have ok': "getInitialScale s' None = Inr (Fin (1 / 2))"
    using getInitialScale_cong [OF same(3,2), of None] ok by simp
  have img': "js_nth (images s') (imageIndex s') = Some landscape"
    using shown_ok(3) [of screen0 landscape "[]"] same(1,2) by simp
  have eq': "scalesAreEqual (imageScale s') (anim_value (imageScaleValue s'))"
    using sc same(4) by (simp add: shown_fields params_landscape newValue_def)
  obtain s'' where r': "onGestureRelease screen0 s' True still = Inr s''"
    using release_tap [OF ok' img' _ _ eq', of still screen0] by (auto simp: still_def)
  have second: "\<not> isVisible s'' \<and> \<not> anim_close (imageTranslateValue_y s'')
      \<and> onClose_calls (animationsFinished s'') = 1"
    using onGestureRelease_closes [OF r' ok'] first onGestureRelease_closes [OF r ok]
    by (auto simp: still_def shown_more swipe_def split: if_splits)
  from r first r' second show ?thesis by blast
qed

text \<open>
  C5, as stated, fails for a release that is the second tap of a double tap. After a double
  tap on the landscape image the stored and the animated scale are 1.5, three times the
  initial scale 0.5: the image is zoomed. A tap starts the double-tap timer; a release at
  the same point with vertical velocity 2 then is a double tap that resets the scale to
  0.5, and it closes the overlay.
\<close>

theorem release_while_zoomed_closes:
  "\<exists>s1 s2 s3. doubleTap screen0 (shown screen0 landscape []) = Inr s1
      \<and> onGestureRelease screen0 s1 True still = Inr s2
      \<and> getInitialScale s2 None = Inr (Fin (1 / 2))
      \<and> imageScale s2 = Fin (3 / 2)
      \<and> anim_value (imageScaleValue s2) = Fin (3 / 2)
      \<and> onGestureRelease screen0 s2 True flick = Inr s3
      \<and> anim_close (imageTranslateValue_y s3)
      \<and> \<not> isVisible (animationsFinished s3)"
proof -
  let ?s = "shown screen0 landscape []"
  have ok: "getInitialScale ?s None = Inr (Fin (1 / 2))"
    by (simp add: shown_ok params_landscape)
  have far: "\<not> scalesAreEqual (Fin (1 / 2)) (Fin (3 / 2))"
    using SCALE_EPSILON_fl(2) by (simp add: scalesAreEqual_Fin)
  have "\<exists>s1. doubleTap screen0 ?s = Inr s1
     \<and> images s1 = images ?s \<and> imageIndex s1 = imageIndex ?s
     \<and> imageInitialParams s1 = imageInitialParams ?s
     \<and> \<not> doubleTapTimer s1 \<and> imageScale s1 = Fin (3 / 2)
     \<and> anim_value (imageScaleValue s1) = Fin (3 / 2)"
    using doubleTap_toggle [OF ok shown_ok(3), of "1 / 2" screen0]
    by (simp add: shown_fields params_landscape newValue_def SCALE_MAX_MULTIPLIER_def)
  then obtain s1 where s1: "doubleTap screen0 ?s = Inr s1"
     "images s1 = images ?s" "imageIndex s1 = imageIndex ?s"
     "imageInitialParams s1 = imageInitialParams ?s"
     "\<not> doubleTapTimer s1" "imageScale s1 = Fin (3 / 2)"
     "anim_value (imageScaleValue s1) = Fin (3 / 2)"
    by blast
  have ok1: "getInitialScale s1 None = Inr (Fin (1 / 2))"
    using getInitialScale_cong [OF s1(4,3), of None] ok by simp
  have img1: "js_nth (images s1) (imageIndex s1) = Some landscape"
    using shown_ok(3) [of screen0 landscape "[]"] s1(2,3) by simp
  have eq1: "scalesAreEqual (imageScale s1) (anim_value (imageScaleValue s1))"
    using s1(6,7) by simp
  have "\<exists>s2. onGestureRelease screen0 s1 True still = Inr s2
     \<and> images s2 = images s1 \<and> imageIndex s2 = imageIndex s1
     \<and> imageInitialParams s2 = imageInitialParams s1 \<and> doubleTapTimer s2
     \<and> imageScale s2 = Fin (3 / 2) \<and> imageScaleValue s2 = imageScaleValue s1"
    using release_tap [OF ok1 img1 _ _ eq1, of still screen0] s1(5,7)
    by (simp add: still_def split del: if_split) blast
  then obtain s2 where s2: "onGestureRelease screen0 s1 True still = Inr s2"
     "images s2 = images s1" "imageIndex s2 = imageIndex s1"
     "imageInitialParams s2 = imageInitialParams s1" "doubleTapTimer s2"
     "imageScale s2 = Fin (3 / 2)" "imageScaleValue s2 = imageScaleValue s1"
    by blast
  have ok2: "getInitialScale s2 None = Inr (Fin (1 / 2))"
    using getInitialScale_cong [OF s2(4,3), of None] ok1 by simp
  have img2: "js_nth (images s2) (imageIndex s2) = Some landscape"
    using img1 s2(2,3) by simp
  have az: "anim_value (imageScaleValue s2) = Fin (3 / 2)"
    using s2(7) s1(7) by simp
  have eq2: "scalesAreEqual (imageScale s2) (anim_value (imageScaleValue s2))"
    using s2(6) az by simp
  have "\<exists>s3. onGestureRelease screen0 s2 True flick = Inr s3
     \<and> anim_close (imageTranslateValue_y s3)"
    using release_tap [OF ok2 img2 _ _ eq2, of flick screen0, unfolded az] s2(5) far
    by (auto simp: flick_def js_seq_def)
  then obtain s3 where s3: "onGestureRelease screen0 s2 True flick = Inr s3"
     "anim_close (imageTranslateValue_y s3)"
    by blast
  have "\<not> isVisible (animationsFinished s3)"
    using s3(2) by simp
  then show ?thesis
    using s1(1) s2(1,6) ok2 az s3 by blast
qed

section \<open>Double tap\<close>

text \<open>
  An initial scale of at least 0.0051 and three times that scale, as the program computes
  it, are not equal up to \<open>SCALE_EPSILON\<close>.
\<close>

lemma tripled_scale_differs:
  assumes "51 / 10000 \<le> \<bar>i\<bar>"
  shows "\<not> scalesAreEqual (Fin i) (Fin (fl (i * 3)))"
proof -
  define a where "a = fl (i * 3)"
  define d where "d = i - a"
  have "\<bar>a - i * 3\<bar> \<le> \<bar>i * 3\<bar> / 2 ^ 53"
    unfolding a_def by (rule fl_error)
  also have "\<dots> \<le> \<bar>i\<bar> / 1000"
    by simp
  finally have a: "\<bar>a - i * 3\<bar> \<le> \<bar>i\<bar> / 1000" .
  have "\<bar>fl d - d\<bar> \<le> \<bar>d\<bar> / 2 ^ 53"
    by (rule fl_error)
  also have "\<dots> \<le> \<bar>d\<bar> / 1000"
    by simp
  finally have e: "\<bar>fl d - d\<bar> \<le> \<bar>d\<bar> / 1000" .
  have "101 / 10000 \<le> \<bar>fl d\<bar>"
  proof (cases "0 \<le> i")
    case True
    then have i: "51 / 10000 \<le> i" "\<bar>i\<bar> = i" using assms by simp_all
    have "a - i * 3 \<le> i / 1000" and "i * 3 - a \<le> i / 1000"
      using a unfolding abs_le_iff i(2) by simp_all
    then have d: "d \<le> - (1999 / 1000) * i"
      unfolding d_def by linarith
    then have "\<bar>d\<bar> = - d" using i(1) by simp
    then have "fl d - d \<le> - d / 1000"
      using e unfolding abs_le_iff by simp
    then show ?thesis using d i(1) by linarith
  next
    case False
    then have i: "i \<le> - (51 / 10000)" "\<bar>i\<bar> = - i" using assms by simp_all
    have "a - i * 3 \<le> - i / 1000" and "i * 3 - a \<le> - i / 1000"
      using a unfolding abs_le_iff i(2) by simp_all
    then have d: "- (1999 / 1000) * i \<le> d"
      unfolding d_def by linarith
    then have "\<bar>d\<bar> = d" using i(1) by simp
    then have "d - fl d \<le> d / 1000"
      using e unfolding abs_le_iff by simp
    then show ?thesis using d i(1) by linarith
  qed
  then have "\<not> \<bar>fl d\<bar> < fl (1 / 100)"
    using SCALE_EPSILON_fl(2) by linarith
  then show ?thesis
    by (simp add: scalesAreEqual_Fin d_def a_def)
qed

text \<open>
  C7. A stationary release while the double-tap timer is pending toggles the zoom: the
  scale it stores and animates to is three times the animated scale when that is within
  \<open>SCALE_EPSILON\<close> of the initial scale, and the initial scale otherwise. Two successive
  double taps from a finite initial scale \<open>i\<close> lead to \<open>3 * i\<close> (rounded to a double) and
  back to \<open>i\<close>, provided \<open>|i| >= 0.0051\<close>, so that \<open>3 * i\<close> is not within
  \<open>SCALE_EPSILON\<close> of \<open>i\<close>.
\<close>

theorem double_tap_toggles:
  assumes "getInitialScale s None = Inr init"
    and "js_nth (images s) (imageIndex s) = Some img"
  shows "(doubleTapTimer s \<and> js_not (dx g) \<and> js_not (dy g)
          \<and> scalesAreEqual (imageScale s) (anim_value (imageScaleValue s)) \<longrightarrow>
          (\<exists>s'. onGestureRelease scr s True g = Inr s'
             \<and> imageScale s' =
                  (if scalesAreEqual init (anim_value (imageScaleValue s))
                   then dmul (anim_value (imageScaleValue s)) SCALE_MAX_MULTIPLIER else init)
             \<and> anim_toValue (imageScaleValue s') = Some (imageScale s')))
       \<and> (\<not> doubleTapTimer s \<and> init = Fin i \<and> imageScale s = Fin i
          \<and> anim_value (imageScaleValue s) = Fin i \<and> 51 / 10000 \<le> \<bar>i\<bar> \<longrightarrow>
          (\<exists>s1 s2. doubleTap scr s = Inr s1 \<and> imageScale s1 = Fin (fl (i * 3))
             \<and> doubleTap scr s1 = Inr s2 \<and> imageScale s2 = Fin i
             \<and> anim_value (imageScaleValue s2) = Fin i))"
proof (rule conjI)
  show "doubleTapTimer s \<and> js_not (dx g) \<and> js_not (dy g)
          \<and> scalesAreEqual (imageScale s) (anim_value (imageScaleValue s)) \<longrightarrow>
          (\<exists>s'. onGestureRelease scr s True g = Inr s'
             \<and> imageScale s' =
                  (if scalesAreEqual init (anim_value (imageScaleValue s))
                   then dmul (anim_value (imageScaleValue s)) SCALE_MAX_MULTIPLIER else init)
             \<and> anim_toValue (imageScaleValue s') = Some (imageScale s'))"
  proof (rule impI)
    assume a: "doubleTapTimer s \<and> js_not (dx g) \<and> js_not (dy g)
          \<and> scalesAreEqual (imageScale s) (anim_value (imageScaleValue s))"
    then have t: "doubleTapTimer s" and x: "js_not (dx g)" and y: "js_not (dy g)"
      and e: "scalesAreEqual (imageScale s) (anim_value (imageScaleValue s))"
      by simp_all
    show "\<exists>s'. onGestureRelease scr s True g = Inr s'
             \<and> imageScale s' =
                  (if scalesAreEqual init (anim_value (imageScaleValue s))
                   then dmul (anim_value (imageScaleValue s)) SCALE_MAX_MULTIPLIER else init)
             \<and> anim_toValue (imageScaleValue s') = Some (imageScale s')"
    proof -
      let ?tog = "if scalesAreEqual init (anim_value (imageScaleValue s))
                  then dmul (anim_value (imageScaleValue s)) SCALE_MAX_MULTIPLIER else init"
      have "\<exists>s'. onGestureRelease scr s True g = Inr s' \<and> imageScale s' = ?tog
              \<and> imageScaleValue s' = timing ?tog (imageScaleValue s)"
        using release_tap [OF assms x y e, of scr] t
        by (simp split del: if_split) blast
      then obtain s' where s': "onGestureRelease scr s True g = Inr s'" "imageScale s' = ?tog"
        "imageScaleValue s' = timing ?tog (imageScaleValue s)"
        by blast
      have "anim_toValue (imageScaleValue s') = Some (imageScale s')"
        unfolding s'(2,3) by (simp add: timing_def)
      with s'(1,2) show ?thesis by blast
    qed
  qed
next
  show "\<not> doubleTapTimer s \<and> init = Fin i \<and> imageScale s = Fin i
          \<and> anim_value (imageScaleValue s) = Fin i \<and> 51 / 10000 \<le> \<bar>i\<bar> \<longrightarrow>
          (\<exists>s1 s2. doubleTap scr s = Inr s1 \<and> imageScale s1 = Fin (fl (i * 3))
             \<and> doubleTap scr s1 = Inr s2 \<and> imageScale s2 = Fin i
             \<and> anim_value (imageScaleValue s2) = Fin i)"
  proof (rule impI)
    assume a: "\<not> doubleTapTimer s \<and> init = Fin i \<and> imageScale s = Fin i
          \<and> anim_value (imageScaleValue s) = Fin i \<and> 51 / 10000 \<le> \<bar>i\<bar>"
    then have t: "\<not> doubleTapTimer s" and ok: "getInitialScale s None = Inr (Fin i)"
      and st: "imageScale s = Fin i" and an: "anim_value (imageScaleValue s) = Fin i"
      and big: "51 / 10000 \<le> \<bar>i\<bar>"
      using assms(1) by simp_all
    have "\<exists>s1. doubleTap scr s = Inr s1
       \<and> images s1 = images s \<and> imageIndex s1 = imageIndex s
       \<and> imageInitialParams s1 = imageInitialParams s
       \<and> \<not> doubleTapTimer s1 \<and> imageScale s1 = Fin (fl (i * 3))
       \<and> anim_value (imageScaleValue s1) = Fin (fl (i * 3))"
      using doubleTap_toggle [OF ok assms(2) st an t, of scr]
      by (simp add: SCALE_MAX_MULTIPLIER_def)
    then obtain s1 where s1: "doubleTap scr s = Inr s1"
       "images s1 = images s" "imageIndex s1 = imageIndex s"
       "imageInitialParams s1 = imageInitialParams s"
       "\<not> doubleTapTimer s1" "imageScale s1 = Fin (fl (i * 3))"
       "anim_value (imageScaleValue s1) = Fin (fl (i * 3))"
      by blast
    have ok1: "getInitialScale s1 None = Inr (Fin i)"
      using getInitialScale_cong [OF s1(4,3), of None] ok by simp
    have img1: "js_nth (images s1) (imageIndex s1) = Some img"
      using assms(2) s1(2,3) by simp
    have far: "\<not> scalesAreEqual (Fin i) (Fin (fl (i * 3)))"
      using big by (rule tripled_scale_differs)
    have "\<exists>s2. doubleTap scr s1 = Inr s2 \<and> imageScale s2 = Fin i
       \<and> anim_value (imageScaleValue s2) = Fin i"
      using doubleTap_toggle [OF ok1 img1 s1(6,7,5), of scr] far by simp blast
    then show "\<exists>s1 s2. doubleTap scr s = Inr s1 \<and> imageScale s1 = Fin (fl (i * 3))
             \<and> doubleTap scr s1 = Inr s2 \<and> imageScale s2 = Fin i
             \<and> anim_value (imageScaleValue s2) = Fin i"
      using s1(1,6) by blast
  qed
qed

theorem double_tap_toggles_witness:
  "(\<exists>s'. onGestureRelease screen0 ((shown screen0 landscape [])\<lparr>doubleTapTimer := True\<rparr>)
            True still = Inr s'
       \<and> imageScale s' = Fin (3 / 2)
       \<and> anim_toValue (imageScaleValue s') = Some (Fin (3 / 2)))
   \<and> (\<exists>s1 s2. doubleTap screen0 (shown screen0 landscape []) = Inr s1
       \<and> imageScale s1 = Fin (3 / 2)
       \<and> doubleTap screen0 s1 = Inr s2 \<and> imageScale s2 = Fin (1 / 2))"
proof -
  let ?s = "shown screen0 landscape []"
  let ?a = "?s\<lparr>doubleTapTimer := True\<rparr>"
  have ok: "getInitialScale ?s None = Inr (Fin (1 / 2))"
    by (simp add: shown_ok params_landscape)
  have oka: "getInitialScale ?a None = Inr (Fin (1 / 2))"
    using getInitialScale_cong [of ?a ?s None] ok by simp
  have imga: "js_nth (images ?a) (imageIndex ?a) = Some landscape"
    using shown_ok(3) [of screen0 landscape "[]"] by simp
  have first: "\<exists>s'. onGestureRelease screen0 ?a True still = Inr s'
       \<and> imageScale s' = Fin (3 / 2)
       \<and> anim_toValue (imageScaleValue s') = Some (Fin (3 / 2))"
    using double_tap_toggles [OF oka imga, where g = still and scr = screen0, THEN conjunct1]
    by (simp add: still_def shown_fields params_landscape newValue_def SCALE_MAX_MULTIPLIER_def)
       metis
  have second: "\<exists>s1 s2. doubleTap screen0 ?s = Inr s1
       \<and> imageScale s1 = Fin (3 / 2)
       \<and> doubleTap screen0 s1 = Inr s2 \<and> imageScale s2 = Fin (1 / 2)"
    using double_tap_toggles [OF ok shown_ok(3), where i = "1 / 2" and scr = screen0, THEN conjunct2]
    by (simp add: shown_fields params_landscape newValue_def) blast
  from first second show ?thesis by blast
qed

text \<open>
  C7, as stated, fails for an image whose initial scale is below \<open>SCALE_EPSILON / 2\<close>. The
  panorama (102400 by 100) has the initial scale \<open>1/256 = 0.00390625\<close> on the 400 by 800
  screen. The first double tap zooms to \<open>3/256 = 0.01171875\<close>, which differs from the
  initial scale by \<open>0.0078125 < 0.01\<close>, so the second double tap triples the scale again: it
  ends at \<open>9/256 = 0.03515625\<close>, not at the initial scale. All these numbers are doubles.
\<close>

theorem double_tap_twice_not_back:
  "\<exists>s1 s2. getInitialScale (shown screen0 panorama []) None = Inr (Fin (1 / 256))
      \<and> imageScale (shown screen0 panorama []) = Fin (1 / 256)
      \<and> anim_value (imageScaleValue (shown screen0 panorama [])) = Fin (1 / 256)
      \<and> doubleTap screen0 (shown screen0 panorama []) = Inr s1
      \<and> imageScale s1 = Fin (3 / 256)
      \<and> doubleTap screen0 s1 = Inr s2
      \<and> imageScale s2 = Fin (9 / 256)
      \<and> anim_value (imageScaleValue s2) = Fin (9 / 256)"
proof -
  let ?s = "shown screen0 panorama []"
  have ok: "getInitialScale ?s None = Inr (Fin (1 / 256))"
    by (simp add: shown_ok params_panorama)
  have st: "imageScale ?s = Fin (1 / 256)" and an: "anim_value (imageScaleValue ?s) = Fin (1 / 256)"
    and t: "\<not> doubleTapTimer ?s"
    by (simp_all add: shown_fields params_panorama newValue_def)
  have near: "scalesAreEqual (Fin (1 / 256)) (Fin (3 / 256))"
    using SCALE_EPSILON_fl(1) by (simp add: scalesAreEqual_Fin)
  have "\<exists>s1. doubleTap screen0 ?s = Inr s1
     \<and> images s1 = images ?s \<and> imageIndex s1 = imageIndex ?s
     \<and> imageInitialParams s1 = imageInitialParams ?s
     \<and> \<not> doubleTapTimer s1 \<and> imageScale s1 = Fin (3 / 256)
     \<and> anim_value (imageScaleValue s1) = Fin (3 / 256)"
    using doubleTap_toggle [OF ok shown_ok(3) st an t, of screen0]
    by (simp add: SCALE_MAX_MULTIPLIER_def)
  then obtain s1 where s1: "doubleTap screen0 ?s = Inr s1"
     "images s1 = images ?s" "imageIndex s1 = imageIndex ?s"
     "imageInitialParams s1 = imageInitialParams ?s"
     "\<not> doubleTapTimer s1" "imageScale s1 = Fin (3 / 256)"
     "anim_value (imageScaleValue s1) = Fin (3 / 256)"
    by blast
  have ok1: "getInitialScale s1 None = Inr (Fin (1 / 256))"
    using getInitialScale_cong [OF s1(4,3), of None] ok by simp
  have img1: "js_nth (images s1) (imageIndex s1) = Some panorama"
    using shown_ok(3) [of screen0 panorama "[]"] s1(2,3) by simp
  have "\<exists>s2. doubleTap screen0 s1 = Inr s2 \<and> imageScale s2 = Fin (9 / 256)
     \<and> anim_value (imageScaleValue s2) = Fin (9 / 256)"
    using doubleTap_toggle [OF ok1 img1 s1(6,7,5), of screen0] near
    by (simp add: SCALE_MAX_MULTIPLIER_def) blast
  then show ?thesis
    using ok st an s1(1,6) by blast
qed

section \<open>NaN after a release\<close>

text \<open>
  C10. When the current image's initial translate has no NaN component, a release that
  returns stores, on each axis, the component that \<open>calcultateNextTranslate\<close> returns
  for the stored scale, or the initial translate's component when that is NaN; the
  animations are started towards the stored components (the vertical one moved on by
  \<open>400 * vy\<close> when the overlay closes); and the stored translate has no NaN component.
\<close>

theorem onGestureRelease_never_stores_NaN:
  assumes "onGestureRelease scr s ev g = Inr s'"
    and "getInitialTranslate s None = Inr it"
    and "\<not> isNaN (tx it)" and "\<not> isNaN (ty it)"
  shows "\<exists>nxt. calcultateNextTranslate scr s (dx g) (dy g) (imageScale s') = Inr nxt
     \<and> tx (imageTranslate s') = (if isNaN (tx nxt) then tx it else tx nxt)
     \<and> ty (imageTranslate s') = (if isNaN (ty nxt) then ty it else ty nxt)
     \<and> anim_toValue (imageTranslateValue_x s') = Some (tx (imageTranslate s'))
     \<and> anim_toValue (imageTranslateValue_y s') =
           Some (if anim_close (imageTranslateValue_y s')
                 then js_add (ty (imageTranslate s')) (js_mul (Fin 400) (vy g))
                 else ty (imageTranslate s'))
     \<and> \<not> isNaN (tx (imageTranslate s')) \<and> \<not> isNaN (ty (imageTranslate s'))"
proof -
  obtain init it' nxt T where r:
    "getInitialTranslate s None = Inr it'"
    "calcultateNextTranslate scr s (dx g) (dy g) (snd T) = Inr nxt"
    "s' = finishRelease (fst T) (snd T) init init it' nxt
                  (anim_value (modalBackgroundOpacity s)) (vy g)"
    using onGestureRelease_InrD [OF assms(1)] by blast
  have i: "it' = it" using r(1) assms(2) by simp
  show ?thesis
    unfolding r(3) i using r(2) assms(3,4) by simp
qed

theorem onGestureRelease_never_stores_NaN_witness:
  "\<exists>s'. onGestureRelease screen0 (shown screen0 portrait []) True still = Inr s'
      \<and> imageTranslate s' = \<lparr>tx = Fin 150, ty = Fin 300\<rparr>
      \<and> anim_toValue (imageTranslateValue_x s') = Some (Fin 150)
      \<and> anim_toValue (imageTranslateValue_y s') = Some (Fin 300)"
proof -
  let ?s = "shown screen0 portrait []"
  have ok: "getInitialScale ?s None = Inr (Fin 1)"
    and okt: "getInitialTranslate ?s None = Inr \<lparr>tx = Fin 150, ty = Fin 300\<rparr>"
    by (simp_all add: shown_ok params_portrait)
  have eq: "scalesAreEqual (imageScale ?s) (anim_value (imageScaleValue ?s))"
    by (simp add: shown_fields params_portrait newValue_def)
  have "\<exists>s'. onGestureRelease screen0 ?s True still = Inr s' \<and> imageScale s' = Fin 1
          \<and> \<not> anim_close (imageTranslateValue_y s')"
    using release_tap [OF ok shown_ok(3) _ _ eq, of still screen0]
    by (auto simp: still_def shown_fields params_portrait newValue_def)
  then obtain s' where r: "onGestureRelease screen0 ?s True still = Inr s'"
    and sc: "imageScale s' = Fin 1" and nc: "\<not> anim_close (imageTranslateValue_y s')"
    by blast
  have "imageTranslate s' = \<lparr>tx = Fin 150, ty = Fin 300\<rparr>
      \<and> anim_toValue (imageTranslateValue_x s') = Some (Fin 150)
      \<and> anim_toValue (imageTranslateValue_y s') = Some (Fin 300)"
    using onGestureRelease_never_stores_NaN [OF r okt] sc nc portrait_release_translate
    by (auto simp: still_def isNaN_def)
  with r show ?thesis by blast
qed

section \<open>Scrolling to the next image\<close>

text \<open>
  The next index is \<open>Math.round(x / screenWidth)\<close>, with \<open>x\<close> the scroll offset (0 when the
  event has none). When it differs from the current index, is non-negative and is an index
  of \<open>imageInitialParams\<close>, \<open>onNextImage\<close> stores it and resets the stored and the
  animated scale and translate to the parameters of that image; when it equals the current
  index only \<open>isScrolling\<close> is updated.
\<close>

lemma onNextImage_in_range:
  "(\<not> js_seq (imageIndex s) (js_round (ddiv (case co of Some v \<Rightarrow> v | None \<Rightarrow> Fin 0) (screenWidth scr)))
     \<and> js_ge (js_round (ddiv (case co of Some v \<Rightarrow> v | None \<Rightarrow> Fin 0) (screenWidth scr))) (Fin 0)
     \<and> js_nth (imageInitialParams s) (js_round (ddiv (case co of Some v \<Rightarrow> v | None \<Rightarrow> Fin 0) (screenWidth scr))) = Some p
    \<longrightarrow> (\<exists>s'. onNextImage scr s co = Inr s'
          \<and> imageIndex s' = js_round (ddiv (case co of Some v \<Rightarrow> v | None \<Rightarrow> Fin 0) (screenWidth scr))
          \<and> imageScale s' = scale p \<and> imageTranslate s' = translate p
          \<and> imageScaleValue s' = setValue (scale p) (imageScaleValue s)
          \<and> imageTranslateValue_x s' = setValue (tx (translate p)) (imageTranslateValue_x s)
          \<and> imageTranslateValue_y s' = newValue_cb (ty (translate p))))
   \<and> (js_seq (imageIndex s) (js_round (ddiv (case co of Some v \<Rightarrow> v | None \<Rightarrow> Fin 0) (screenWidth scr)))
    \<longrightarrow> onNextImage scr s co =
          Inr (s\<lparr>isScrolling := js_gt (js_mod (case co of Some v \<Rightarrow> v | None \<Rightarrow> Fin 0) (screenWidth scr)) (Fin 10)\<rparr>))"
proof -
  define x where "x = (case co of Some v \<Rightarrow> v | None \<Rightarrow> Fin 0)"
  define n where "n = js_round (ddiv x (screenWidth scr))"
  define s1 where "s1 = s\<lparr>isScrolling := js_gt (js_mod x (screenWidth scr)) (Fin 10)\<rparr>"
  have unfolded: "onNextImage scr s co =
      (if \<not> js_seq (imageIndex s1) n \<and> js_ge n (Fin 0)
       then (case getInitialScale s1 (Some n) of
               Inl e \<Rightarrow> Inl e
             | Inr nextImageScale \<Rightarrow>
                 (case getInitialTranslate s1 (Some n) of
                    Inl e \<Rightarrow> Inl e
                  | Inr nextImageTranslate \<Rightarrow>
                      Inr (setValue_y (ty nextImageTranslate)
                             (s1\<lparr>imageIndex := n,
                                 imageScale := nextImageScale,
                                 imageTranslate := nextImageTranslate,
                                 imageScaleValue := setValue nextImageScale (imageScaleValue s1),
                                 imageTranslateValue_x :=
                                   setValue (tx nextImageTranslate) (imageTranslateValue_x s1)\<rparr>))))
       else Inr s1)"
    unfolding onNextImage_def Let_def x_def n_def s1_def by (rule refl)
  have same: "onNextImage scr s co = Inr s1" if "js_seq (imageIndex s) n"
    using that unfolding unfolded by (simp add: s1_def)
  have other: "\<exists>s'. onNextImage scr s co = Inr s'
          \<and> imageIndex s' = n \<and> imageScale s' = scale p \<and> imageTranslate s' = translate p
          \<and> imageScaleValue s' = setValue (scale p) (imageScaleValue s)
          \<and> imageTranslateValue_x s' = setValue (tx (translate p)) (imageTranslateValue_x s)
          \<and> imageTranslateValue_y s' = newValue_cb (ty (translate p))"
    if "\<not> js_seq (imageIndex s) n" and "js_ge n (Fin 0)"
      and "js_nth (imageInitialParams s) n = Some p"
  proof -
    have "getInitialScale s1 (Some n) = Inr (scale p)"
      and "getInitialTranslate s1 (Some n) = Inr (translate p)"
      using that(3) by (simp_all add: getInitialScale_def getInitialTranslate_def s1_def)
    then show ?thesis
      using that(1,2) unfolding unfolded by (simp add: s1_def setValue_y_def stopAnimation_eq)
  qed
  show ?thesis
    using same other unfolding n_def x_def s1_def by blast
qed

lemma screen0_fields:
  "screenWidth screen0 = Fin 400" "screenHeight screen0 = Fin 800"
  by (simp_all add: screen0_def)

lemma onNextImage_in_range_example:
  "(\<exists>s'. onNextImage screen0 (shown screen0 landscape [portrait]) (Some (Fin 400)) = Inr s'
       \<and> imageIndex s' = Fin 1 \<and> imageScale s' = Fin 1
       \<and> imageTranslate s' = \<lparr>tx = Fin 150, ty = Fin 300\<rparr>
       \<and> anim_value (imageScaleValue s') = Fin 1)
   \<and> onNextImage screen0 (shown screen0 landscape [portrait]) (Some (Fin 100)) =
       Inr ((shown screen0 landscape [portrait])\<lparr>isScrolling := True\<rparr>)"
  using onNextImage_in_range [of "shown screen0 landscape [portrait]" "Some (Fin 400)" screen0
          "getInitalParams screen0 portrait"]
        onNextImage_in_range [of "shown screen0 landscape [portrait]" "Some (Fin 100)" screen0
          "getInitalParams screen0 portrait"]
  by (simp add: shown_def Let_def params_landscape params_portrait js_seq_def js_ge_def
        js_nth_def js_gt_def trunc_def setValue_def screen0_fields) fastforce

text \<open>
  C6. The claim is that for every scroll event whose rounded index differs from the
  current one and is non-negative, \<open>onNextImage\<close> updates \<open>imageIndex\<close> and resets the
  scale and the translate to the new image's precomputed parameters. In the state
  \<open>stale\<close> the list shows two images, the second without a known size, and
  \<open>imageInitialParams\<close> holds the parameters of the first only: the component got into it
  from \<open>shown screen0 landscape []\<close> by \<open>componentWillReceiveProps\<close>, and it renders
  without an error. Scrolling to the second page (offset 400) gives the index 1, which
  differs from the current index 0 and is non-negative, and \<open>onNextImage\<close> throws a
  TypeError instead of updating the state.
\<close>

theorem onNextImage_throws:
  "componentWillReceiveProps screen0 (shown screen0 landscape []) [landscape, unsized]
       (Some (Fin 0)) (Some True) = Inr stale
   \<and> render stale = Inr [Some (Fin (1 / 2)), None]
   \<and> imageIndex stale = Fin 0
   \<and> js_round (ddiv (Fin 400) (screenWidth screen0)) = Fin 1
   \<and> js_ge (Fin 1) (Fin 0)
   \<and> length (images stale) = 2
   \<and> length (imageInitialParams stale) = 1
   \<and> onNextImage screen0 stale (Some (Fin 400)) = Inl TypeError"
proof -
  have "render stale = Inr [Some (Fin (1 / 2)), None]"
    by (simp add: render_def stale_def shown_def Let_def getImageStyle_def params_landscape
          params_landscape [unfolded landscape_def] landscape_def unsized_def
          js_not_opt_def js_not_def js_seq_def newValue_def)
  moreover have "onNextImage screen0 stale (Some (Fin 400)) = Inl TypeError"
    by (simp add: onNextImage_def Let_def getInitialScale_def stale_def shown_def screen0_def
          js_nth_def js_seq_def js_ge_def)
  ultimately show ?thesis
    using stale_reached by (simp add: stale_def shown_def Let_def screen0_def js_ge_def)
qed

text \<open>
  Had the second image a known size, the state would not even render: \<open>getImageStyle\<close>
  reads the initial scale of every image that has a size and is not the current one.
\<close>

lemma render_throws:
  "render ((shown screen0 landscape [])\<lparr>images := [landscape, portrait]\<rparr>) = Inl TypeError"
  by (simp add: render_def shown_def Let_def getImageStyle_def getInitialScale_def
        js_not_opt_def js_not_def js_seq_def js_nth_def newValue_def landscape_def portrait_def)

section \<open>Distances\<close>

lemma getDistance_short: "length ts < 2 \<Longrightarrow> getDistance ts = Fin 0"
  by (cases ts rule: getDistance.cases) simp_all

text \<open>
  C9. \<open>getDistance\<close> returns 0 for every list of fewer than two touches, and a move whose
  initial distance is 0 (or NaN) or that has fewer than two touches returns before the new
  scale is computed: the animated scale and \<open>currentTouchesNum\<close> stay as they were.
\<close>

theorem onGestureMove_guards_division:
  "(\<forall>ts. length ts < 2 \<longrightarrow> getDistance ts = Fin 0)
   \<and> (onGestureMove scr s touches g = Inr s'
      \<and> (js_not (getDistance (if currentTouchesNum s = 1 \<and> length touches = 2
                       then touches else initialTouches s)) \<or> length touches < 2)
     \<longrightarrow> imageScaleValue s' = imageScaleValue s \<and> currentTouchesNum s' = currentTouchesNum s)"
proof (rule conjI)
  show "\<forall>ts. length ts < 2 \<longrightarrow> getDistance ts = Fin 0"
    by (simp add: getDistance_short)
next
  show "onGestureMove scr s touches g = Inr s'
      \<and> (js_not (getDistance (if currentTouchesNum s = 1 \<and> length touches = 2
                       then touches else initialTouches s)) \<or> length touches < 2)
     \<longrightarrow> imageScaleValue s' = imageScaleValue s \<and> currentTouchesNum s' = currentTouchesNum s"
  proof (rule impI)
  assume a: "onGestureMove scr s touches g = Inr s'
      \<and> (js_not (getDistance (if currentTouchesNum s = 1 \<and> length touches = 2
                       then touches else initialTouches s)) \<or> length touches < 2)"
  show "imageScaleValue s' = imageScaleValue s \<and> currentTouchesNum s' = currentTouchesNum s"
  proof (cases "isScrolling s")
    case True
    then show ?thesis using a by (simp add: onGestureMove_def)
  next
    case False
    let ?s1 = "if currentTouchesNum s = 1 \<and> length touches = 2
                                 then s\<lparr>initialTouches := touches\<rparr> else s"
    obtain init where i: "getInitialScale s None = Inr init"
      using a False by (cases "getInitialScale s None") (simp_all add: onGestureMove_def Let_def split: if_splits)
    obtain img where im: "js_nth (images s) (imageIndex s) = Some img"
      using a False i by (cases "js_nth (images s) (imageIndex s)") (simp_all add: onGestureMove_def Let_def split: if_splits)
    let ?d = "getDistance (if currentTouchesNum s = 1 \<and> length touches = 2
                            then touches else initialTouches s)"
    have early: "js_not ?d \<or> length touches < 2"
      using a by blast
    have "s' = pinch (drag scr ?s1 g init img) touches (getDistance touches) ?d init"
      using a onGestureMove_pinch [OF False i im, of scr touches g] by simp
    then have "s' = drag scr ?s1 g init img"
      by (simp only: pinch_returns_early [OF early])
    then show ?thesis by simp
  qed
  qed
qed

theorem onGestureMove_guards_division_witness:
  "getDistance [finger 100 300] = Fin 0
   \<and> (\<exists>s'. onGestureMove screen0 (onGestureStart (shown screen0 landscape []) [finger 100 300])
              [finger 120 300] still = Inr s'
        \<and> imageScaleValue s' = newValue (Fin (1 / 2)))"
proof -
  let ?s = "onGestureStart (shown screen0 landscape []) [finger 100 300]"
  have ok: "getInitialScale ?s None = Inr (Fin (1 / 2))"
    using getInitialScale_cong [of ?s "shown screen0 landscape []" None]
    by (simp add: onGestureStart_def shown_ok params_landscape)
  have img: "js_nth (images ?s) (imageIndex ?s) = Some landscape"
    using shown_ok(3) [of screen0 landscape "[]"] by (simp add: onGestureStart_def)
  have ns: "\<not> isScrolling ?s"
    by (simp add: onGestureStart_def shown_fields)
  obtain s' where r: "onGestureMove screen0 ?s [finger 120 300] still = Inr s'"
    using onGestureMove_pinch [OF ns ok img] by blast
  have "imageScaleValue s' = imageScaleValue ?s"
    using onGestureMove_guards_division [of screen0 ?s "[finger 120 300]" still s'] r by simp
  moreover have "getDistance [finger 100 300] = Fin 0"
    using onGestureMove_guards_division [of screen0 ?s "[finger 120 300]" still s'] by simp
  ultimately show ?thesis
    using r by (simp add: onGestureStart_def shown_fields params_landscape)
qed

end
